theory Spec2Isabelle
  imports Main
begin

section \<open>The bootstrap layer of cmd/cmd.go\<close>

text \<open>
  A shallow embedding of \<^verbatim>\<open>src/cmd/cmd.go\<close>: the flag table, the built-in factory
  tables, command construction (\<^verbatim>\<open>newCmd\<close>) and the pre-run hook (\<^verbatim>\<open>Before\<close>).
  Go strings are byte sequences and are modelled as \<^typ>\<open>string\<close>; the contents of a
  Go map are a partial function, and where construction shares a map by reference the
  map lives at an address of an explicit heap; package-level variables written by the
  hook are fields of an explicit world record that every statement of the hook takes
  and returns.
\<close>

subsection \<open>The two functions of Go's strings package that the hook calls\<close>

text \<open>
  \<^verbatim>\<open>strings.Split(s, sep)\<close> cuts \<^verbatim>\<open>s\<close> around each occurrence of \<^verbatim>\<open>sep\<close>; when
  \<^verbatim>\<open>sep\<close> does not occur the result is the one-element slice holding \<^verbatim>\<open>s\<close>. The
  library loops on the index of the next separator, and so does the model. Both call
  sites of cmd.go pass a one-byte separator (\<^verbatim>\<open>","\<close> and \<^verbatim>\<open>"="\<close>), so the separator is a
  \<^typ>\<open>char\<close> here.
\<close>

function strings_Split :: "string \<Rightarrow> char \<Rightarrow> string list" where
  "strings_Split s sep =
     (if sep \<in> set s
      then takeWhile (\<lambda>c. c \<noteq> sep) s # strings_Split (tl (dropWhile (\<lambda>c. c \<noteq> sep) s)) sep
      else [s])"
  by pat_completeness auto
termination
proof (relation "measure (\<lambda>(s, sep). length s)")
  show "wf (measure (\<lambda>(s, sep). length s))" by simp
next
  fix s :: string and sep :: char
  assume "sep \<in> set s"
  then have "dropWhile (\<lambda>c. c \<noteq> sep) s \<noteq> []" by simp
  then have "length (tl (dropWhile (\<lambda>c. c \<noteq> sep) s)) < length (dropWhile (\<lambda>c. c \<noteq> sep) s)"
    by (cases "dropWhile (\<lambda>c. c \<noteq> sep) s") simp_all
  also have "\<dots> \<le> length s" by (rule length_dropWhile_le)
  finally show "((tl (dropWhile (\<lambda>c. c \<noteq> sep) s), sep), (s, sep)) \<in> measure (\<lambda>(s, sep). length s)"
    by simp
qed

declare strings_Split.simps [simp del]

text \<open>
  \<^verbatim>\<open>strings.Join(elems, sep)\<close>: the elements in order, with \<^verbatim>\<open>sep\<close> between
  neighbours; the empty slice gives the empty string.
\<close>

fun strings_Join :: "string list \<Rightarrow> string \<Rightarrow> string" where
  "strings_Join [] sep = []"
| "strings_Join [e] sep = e"
| "strings_Join (e # e' # es) sep = e @ sep @ strings_Join (e' # es) sep"

subsection \<open>Collaborator types\<close>

text \<open>
  The component kinds (\<^verbatim>\<open>broker.Broker\<close>, \<^verbatim>\<open>registry.Registry\<close>,
  \<^verbatim>\<open>selector.Selector\<close>, \<^verbatim>\<open>transport.Transport\<close>, \<^verbatim>\<open>server.Server\<close>,
  \<^verbatim>\<open>client.Client\<close>) are interfaces of other packages: they are the type variables
  \<open>'b\<close>, \<open>'r\<close>, \<open>'s\<close>, \<open>'t\<close>, \<open>'srv\<close>, \<open>'cl\<close>. The option types of the
  broker, registry, transport and client packages are never built by cmd.go (every
  variadic option list it passes is empty), so they stay opaque. cmd.go builds one
  selector option, \<^verbatim>\<open>selector.Registry(r)\<close>, and six server options.
\<close>

typedecl broker_Option
typedecl registry_Option
typedecl transport_Option
typedecl client_Option
typedecl error

datatype 'r selector_Option = selector_Registry 'r

datatype server_Option =
    server_Name string
  | server_Version string
  | server_Id string
  | server_Address string
  | server_Advertise string
  | server_Metadata "string \<rightharpoonup> string"

type_synonym 'b broker_factory = "string list \<Rightarrow> broker_Option list \<Rightarrow> 'b"
type_synonym 'r registry_factory = "string list \<Rightarrow> registry_Option list \<Rightarrow> 'r"
type_synonym ('r, 's) selector_factory = "'r selector_Option list \<Rightarrow> 's"
type_synonym 't transport_factory = "string list \<Rightarrow> transport_Option list \<Rightarrow> 't"

text \<open>
  \<^verbatim>\<open>cli.Flag\<close> values as cmd.go writes them. The arguments are, in this order,
  Name, EnvVar, Value, Usage (a Bool flag has no Value); a field the Go literal leaves
  out is the empty string.
\<close>

datatype Flag =
    StringFlag string string string string
  | StringSliceFlag string string "string list" string
  | BoolFlag string string string

text \<open>
  \<^verbatim>\<open>*cli.Context\<close>: the parsed flag values, read by name. The library returns the
  zero value for a name it does not know, so each accessor is a total function.
\<close>

record Context =
  ctx_String :: "string \<Rightarrow> string"
  ctx_StringSlice :: "string \<Rightarrow> string list"
  ctx_Bool :: "string \<Rightarrow> bool"

text \<open>
  The fields of \<^verbatim>\<open>cli.App\<close> that \<^verbatim>\<open>newCmd\<close> assigns. Its \<^verbatim>\<open>Before\<close> field is
  bound to the command's own hook and its \<^verbatim>\<open>Action\<close> to a function with an empty body;
  neither is a field here.
\<close>

record cli_App =
  app_Name :: string
  app_Version :: string
  app_Usage :: string
  app_Flags :: "Flag list"
  app_HideVersion :: bool

text \<open>
  Modelled from the spec: the \<^verbatim>\<open>Options\<close> struct is declared outside cmd.go. The
  fields are the ones cmd.go reads and writes and section 3 of the specification
  lists: three display strings and four factory registries keyed by kind identifier.
  A registry field of the Go struct is a map, and a Go map value is a reference. This
  record is the struct as the hook reads it: each registry field holds the contents,
  when the hook runs, of the map the struct refers to. The struct as construction
  stores it, with the references, is \<open>stored_Options\<close> below.
\<close>

record ('b, 'r, 's, 't) Options =
  Name :: string
  Version :: string
  Description :: string
  Brokers :: "string \<rightharpoonup> 'b broker_factory"
  Registries :: "string \<rightharpoonup> 'r registry_factory"
  Selectors :: "string \<rightharpoonup> ('r, 's) selector_factory"
  Transports :: "string \<rightharpoonup> 't transport_factory"

record ('b, 'r, 's, 't) cmd =
  opts :: "('b, 'r, 's, 't) Options"
  app :: cli_App

text \<open>
  The functions of the broker, registry, selector, transport, server and client
  packages that cmd.go names. They are parameters of the model: nothing is assumed
  about what they return. A factory of a registry and each of these constructors is
  a total function of its arguments here: a nil function value, a collaborator that
  panics or does not return, and a collaborator that itself assigns one of the
  package-level variables the hook assigns are outside the model.
\<close>

record ('b, 'r, 's, 't, 'srv, 'cl) packages =
  broker_NewBroker :: "'b broker_factory"
  registry_NewRegistry :: "'r registry_factory"
  selector_NewSelector :: "('r, 's) selector_factory"
  transport_NewTransport :: "'t transport_factory"
  server_NewServer :: "server_Option list \<Rightarrow> 'srv"
  client_NewClient :: "client_Option list \<Rightarrow> 'cl"

text \<open>
  Go panics where the run-time check of a slice expression or of an index fails.
  The code has three such places: \<^verbatim>\<open>os.Args[0]\<close> inside \<^verbatim>\<open>cli.NewApp\<close>, which
  construction calls, and \<^verbatim>\<open>os.Args[:1]\<close> and \<^verbatim>\<open>parts[0]\<close> in the hook.
\<close>

datatype panic = slice_bounds_out_of_range | index_out_of_range

subsection \<open>Package-level tables (lines 41 to 160)\<close>

definition DefaultFlags :: "Flag list" where
  "DefaultFlags =
    [StringFlag ''server_name'' ''MICRO_SERVER_NAME'' ''''
       ''Name of the server. go.micro.srv.example'',
     StringFlag ''server_version'' ''MICRO_SERVER_VERSION'' ''''
       ''Version of the server. 1.1.0'',
     StringFlag ''server_id'' ''MICRO_SERVER_ID'' ''''
       ''Id of the server. Auto-generated if not specified'',
     StringFlag ''server_address'' ''MICRO_SERVER_ADDRESS'' '':0''
       ''Bind address for the server. 127.0.0.1:8080'',
     StringFlag ''server_advertise'' ''MICRO_SERVER_ADVERTISE'' ''''
       ''Used instead of the server_address when registering with discovery. 127.0.0.1:8080'',
     StringSliceFlag ''server_metadata'' ''MICRO_SERVER_METADATA'' []
       ''A list of key-value pairs defining metadata. version=1.0.0'',
     StringFlag ''broker'' ''MICRO_BROKER'' ''http''
       ''Broker for pub/sub. http, nats, rabbitmq'',
     StringFlag ''broker_address'' ''MICRO_BROKER_ADDRESS'' ''''
       ''Comma-separated list of broker addresses'',
     StringFlag ''registry'' ''MICRO_REGISTRY'' ''consul''
       ''Registry for discovery. memory, consul, etcd, kubernetes'',
     StringFlag ''registry_address'' ''MICRO_REGISTRY_ADDRESS'' ''''
       ''Comma-separated list of registry addresses'',
     StringFlag ''selector'' ''MICRO_SELECTOR'' ''selector''
       ''Selector used to pick nodes for querying. random, roundrobin, blacklist'',
     StringFlag ''transport'' ''MICRO_TRANSPORT'' ''http''
       ''Transport mechanism used; http, rabbitmq, nats'',
     StringFlag ''transport_address'' ''MICRO_TRANSPORT_ADDRESS'' ''''
       ''Comma-separated list of transport addresses'',
     BoolFlag ''logtostderr'' '''' ''log to standard error instead of files'',
     BoolFlag ''alsologtostderr'' '''' ''log to standard error as well as files'',
     StringFlag ''log_dir'' '''' ''''
       ''log files will be written to this directory instead of the default temporary directory'',
     StringFlag ''stderrthreshold'' '''' '''' ''logs at or above this threshold go to stderr'',
     StringFlag ''v'' '''' '''' ''log level for V logs'',
     StringFlag ''vmodule'' '''' ''''
       ''comma-separated list of pattern=N settings for file-filtered logging'',
     StringFlag ''log_backtrace_at'' '''' ''''
       ''when logging hits line file:N, emit a stack trace'']"

text \<open>
  The four map literals of lines 145 to 160: what each table variable is declared
  with. The variables themselves, which construction reads and which can come to
  hold more, are part of the process state below.
\<close>

definition DefaultBrokers ::
  "('b, 'r, 's, 't, 'srv, 'cl) packages \<Rightarrow> (string \<rightharpoonup> 'b broker_factory)" where
  "DefaultBrokers pk = [''http'' \<mapsto> broker_NewBroker pk]"

definition DefaultRegistries ::
  "('b, 'r, 's, 't, 'srv, 'cl) packages \<Rightarrow> (string \<rightharpoonup> 'r registry_factory)" where
  "DefaultRegistries pk = [''consul'' \<mapsto> registry_NewRegistry pk]"

definition DefaultSelectors ::
  "('b, 'r, 's, 't, 'srv, 'cl) packages \<Rightarrow> (string \<rightharpoonup> ('r, 's) selector_factory)" where
  "DefaultSelectors pk = [''random'' \<mapsto> selector_NewSelector pk]"

definition DefaultTransports ::
  "('b, 'r, 's, 't, 'srv, 'cl) packages \<Rightarrow> (string \<rightharpoonup> 't transport_factory)" where
  "DefaultTransports pk = [''http'' \<mapsto> transport_NewTransport pk]"

text \<open>
  The default a String flag declares, by flag name: the Value of the first
  \<^verbatim>\<open>cli.StringFlag\<close> of the table with that Name.
\<close>

fun StringFlag_Value :: "Flag list \<Rightarrow> string \<Rightarrow> string option" where
  "StringFlag_Value [] n = None"
| "StringFlag_Value (StringFlag name envvar val usage # fs) n =
     (if name = n then Some val else StringFlag_Value fs n)"
| "StringFlag_Value (f # fs) n = StringFlag_Value fs n"

subsection \<open>Command construction (lines 171 to 202)\<close>












subsection \<open>The world the hook runs in\<close>

text \<open>
  The hook calls into other packages and assigns their package-level variables. Each
  call is recorded, in program order, as an event of a trace; each assigned variable
  is a field of the world. A factory event carries the registry key under which the
  factory was found and the argument it was called with. The local metadata map is
  a Go map that the loop allocates and then writes entry by entry; the allocation and
  each write are events too.
\<close>

datatype 'r event =
    Ev_flag_Set string string
  | Ev_flag_Parse
  | is_Ev_Broker: Ev_Broker string "string list"
  | is_Ev_Registry: Ev_Registry string "string list"
  | is_Ev_Selector: Ev_Selector string "'r selector_Option list"
  | is_Ev_Transport: Ev_Transport string "string list"
  | Ev_make_map
  | Ev_map_assign string string
  | is_Ev_NewServer: Ev_NewServer "server_Option list"
  | is_Ev_NewClient: Ev_NewClient

record ('b, 'r, 's, 't, 'srv, 'cl) world =
  os_Args :: "string list"
  broker_DefaultBroker :: 'b
  registry_DefaultRegistry :: 'r
  selector_DefaultSelector :: 's
  transport_DefaultTransport :: 't
  server_DefaultServer :: 'srv
  client_DefaultClient :: 'cl
  trace :: "'r event list"

definition emit ::
  "'r event \<Rightarrow> ('b, 'r, 's, 't, 'srv, 'cl) world \<Rightarrow> ('b, 'r, 's, 't, 'srv, 'cl) world" where
  "emit e w = w\<lparr>trace := trace w @ [e]\<rparr>"

definition fmt_Sprintf_v :: "bool \<Rightarrow> string" where
  "fmt_Sprintf_v b = (if b then ''true'' else ''false'')"

subsection \<open>The pre-run hook (lines 212 to 263)\<close>

text \<open>
  Lines 214 to 222. \<^verbatim>\<open>os.Args[:1]\<close> needs one element to keep; the model panics on
  the empty argument list. The value \<^verbatim>\<open>flag.Set\<close> returns is dropped by the source.
\<close>

definition Before_logging ::
  "Context \<Rightarrow> ('b, 'r, 's, 't, 'srv, 'cl) world \<Rightarrow> panic + ('b, 'r, 's, 't, 'srv, 'cl) world" where
  "Before_logging ctx w =
    (case os_Args w of
       [] \<Rightarrow> Inl slice_bounds_out_of_range
     | a # _ \<Rightarrow>
        Inr (fold emit
          [Ev_flag_Set ''logtostderr'' (fmt_Sprintf_v (ctx_Bool ctx ''logtostderr'')),
           Ev_flag_Set ''alsologtostderr'' (fmt_Sprintf_v (ctx_Bool ctx ''alsologtostderr'')),
           Ev_flag_Set ''stderrthreshold'' (ctx_String ctx ''stderrthreshold''),
           Ev_flag_Set ''log_backtrace_at'' (ctx_String ctx ''log_backtrace_at''),
           Ev_flag_Set ''log_dir'' (ctx_String ctx ''log_dir''),
           Ev_flag_Set ''vmodule'' (ctx_String ctx ''vmodule''),
           Ev_flag_Set ''v'' (ctx_String ctx ''v''),
           Ev_flag_Parse]
          (w\<lparr>os_Args := [a]\<rparr>)))"

text \<open>Lines 224 to 226.\<close>

definition Before_broker ::
  "('b, 'r, 's, 't) cmd \<Rightarrow> Context \<Rightarrow> ('b, 'r, 's, 't, 'srv, 'cl) world
     \<Rightarrow> ('b, 'r, 's, 't, 'srv, 'cl) world" where
  "Before_broker c ctx w =
    (case Brokers (opts c) (ctx_String ctx ''broker'') of
       None \<Rightarrow> w
     | Some b \<Rightarrow>
        (let addrs = strings_Split (ctx_String ctx ''broker_address'') CHR '',''
         in (emit (Ev_Broker (ctx_String ctx ''broker'') addrs) w)
              \<lparr>broker_DefaultBroker := b addrs []\<rparr>))"

text \<open>Lines 228 to 230.\<close>

definition Before_registry ::
  "('b, 'r, 's, 't) cmd \<Rightarrow> Context \<Rightarrow> ('b, 'r, 's, 't, 'srv, 'cl) world
     \<Rightarrow> ('b, 'r, 's, 't, 'srv, 'cl) world" where
  "Before_registry c ctx w =
    (case Registries (opts c) (ctx_String ctx ''registry'') of
       None \<Rightarrow> w
     | Some r \<Rightarrow>
        (let addrs = strings_Split (ctx_String ctx ''registry_address'') CHR '',''
         in (emit (Ev_Registry (ctx_String ctx ''registry'') addrs) w)
              \<lparr>registry_DefaultRegistry := r addrs []\<rparr>))"

text \<open>
  Lines 232 to 234. The argument is built from the registry variable as it is when
  this statement runs.
\<close>

definition Before_selector ::
  "('b, 'r, 's, 't) cmd \<Rightarrow> Context \<Rightarrow> ('b, 'r, 's, 't, 'srv, 'cl) world
     \<Rightarrow> ('b, 'r, 's, 't, 'srv, 'cl) world" where
  "Before_selector c ctx w =
    (case Selectors (opts c) (ctx_String ctx ''selector'') of
       None \<Rightarrow> w
     | Some s \<Rightarrow>
        (let so = [selector_Registry (registry_DefaultRegistry w)]
         in (emit (Ev_Selector (ctx_String ctx ''selector'') so) w)
              \<lparr>selector_DefaultSelector := s so\<rparr>))"

text \<open>Lines 236 to 238.\<close>

definition Before_transport ::
  "('b, 'r, 's, 't) cmd \<Rightarrow> Context \<Rightarrow> ('b, 'r, 's, 't, 'srv, 'cl) world
     \<Rightarrow> ('b, 'r, 's, 't, 'srv, 'cl) world" where
  "Before_transport c ctx w =
    (case Transports (opts c) (ctx_String ctx ''transport'') of
       None \<Rightarrow> w
     | Some t \<Rightarrow>
        (let addrs = strings_Split (ctx_String ctx ''transport_address'') CHR '',''
         in (emit (Ev_Transport (ctx_String ctx ''transport'') addrs) w)
              \<lparr>transport_DefaultTransport := t addrs []\<rparr>))"

text \<open>
  Lines 240 to 249. The loop body reads \<^verbatim>\<open>parts[0]\<close>, which panics on an empty
  slice; \<^verbatim>\<open>parts[1:]\<close> is the tail. \<^verbatim>\<open>val\<close> starts as the empty string.
\<close>

fun metadata_loop ::
  "string list \<Rightarrow> (string \<rightharpoonup> string) \<times> ('b, 'r, 's, 't, 'srv, 'cl) world
     \<Rightarrow> panic + (string \<rightharpoonup> string) \<times> ('b, 'r, 's, 't, 'srv, 'cl) world" where
  "metadata_loop [] (metadata, w) = Inr (metadata, w)"
| "metadata_loop (d # ds) (metadata, w) =
     (let parts = strings_Split d CHR ''=''
      in case parts of
           [] \<Rightarrow> Inl index_out_of_range
         | key # rest \<Rightarrow>
            (let val = (if length parts > 1 then strings_Join rest ''='' else [])
             in metadata_loop ds (metadata(key \<mapsto> val), emit (Ev_map_assign key val) w)))"

definition Before_metadata ::
  "Context \<Rightarrow> ('b, 'r, 's, 't, 'srv, 'cl) world
     \<Rightarrow> panic + (string \<rightharpoonup> string) \<times> ('b, 'r, 's, 't, 'srv, 'cl) world" where
  "Before_metadata ctx w =
     metadata_loop (ctx_StringSlice ctx ''server_metadata'') (Map.empty, emit Ev_make_map w)"

text \<open>Lines 251 to 258.\<close>

definition Before_server ::
  "('b, 'r, 's, 't, 'srv, 'cl) packages \<Rightarrow> Context \<Rightarrow> (string \<rightharpoonup> string)
     \<Rightarrow> ('b, 'r, 's, 't, 'srv, 'cl) world \<Rightarrow> ('b, 'r, 's, 't, 'srv, 'cl) world" where
  "Before_server pk ctx metadata w =
    (let so = [server_Name (ctx_String ctx ''server_name''),
               server_Version (ctx_String ctx ''server_version''),
               server_Id (ctx_String ctx ''server_id''),
               server_Address (ctx_String ctx ''server_address''),
               server_Advertise (ctx_String ctx ''server_advertise''),
               server_Metadata metadata]
     in (emit (Ev_NewServer so) w)\<lparr>server_DefaultServer := server_NewServer pk so\<rparr>)"

text \<open>Line 260.\<close>

definition Before_client ::
  "('b, 'r, 's, 't, 'srv, 'cl) packages
     \<Rightarrow> ('b, 'r, 's, 't, 'srv, 'cl) world \<Rightarrow> ('b, 'r, 's, 't, 'srv, 'cl) world" where
  "Before_client pk w = (emit Ev_NewClient w)\<lparr>client_DefaultClient := client_NewClient pk []\<rparr>"

text \<open>
  The hook: the statements above in the order of the source, then \<^verbatim>\<open>return nil\<close>
  (\<open>None\<close> is Go's nil error). A panic ends the hook where it happens.
\<close>

definition Before ::
  "('b, 'r, 's, 't, 'srv, 'cl) packages \<Rightarrow> ('b, 'r, 's, 't) cmd \<Rightarrow> Context
     \<Rightarrow> ('b, 'r, 's, 't, 'srv, 'cl) world
     \<Rightarrow> panic + (error option \<times> ('b, 'r, 's, 't, 'srv, 'cl) world)" where
  "Before pk c ctx w =
    (case Before_logging ctx w of
       Inl p \<Rightarrow> Inl p
     | Inr w \<Rightarrow>
        (let w = Before_broker c ctx w;
             w = Before_registry c ctx w;
             w = Before_selector c ctx w;
             w = Before_transport c ctx w
         in case Before_metadata ctx w of
              Inl p \<Rightarrow> Inl p
            | Inr (metadata, w) \<Rightarrow>
               (let w = Before_server pk ctx metadata w;
                    w = Before_client pk w
                in Inr (None, w))))"

subsection \<open>Vocabulary of the statements\<close>

text \<open>
  The words of the specification for one metadata token: the key is the text before
  the first \<^verbatim>\<open>=\<close>, the value is everything after the first \<^verbatim>\<open>=\<close>, and a token
  without \<^verbatim>\<open>=\<close> has the empty value. They are compared below with what the loop of
  the source computes from \<^verbatim>\<open>strings.Split\<close> and \<^verbatim>\<open>strings.Join\<close>.
\<close>

definition metadata_key :: "string \<Rightarrow> string" where
  "metadata_key d = takeWhile (\<lambda>c. c \<noteq> CHR ''='') d"

definition metadata_value :: "string \<Rightarrow> string" where
  "metadata_value d =
     (if CHR ''='' \<in> set d then tl (dropWhile (\<lambda>c. c \<noteq> CHR ''='') d) else [])"

text \<open>The events of lines 215 to 222, in program order.\<close>

definition logging_events :: "Context \<Rightarrow> 'r event list" where
  "logging_events ctx =
     [Ev_flag_Set ''logtostderr'' (fmt_Sprintf_v (ctx_Bool ctx ''logtostderr'')),
      Ev_flag_Set ''alsologtostderr'' (fmt_Sprintf_v (ctx_Bool ctx ''alsologtostderr'')),
      Ev_flag_Set ''stderrthreshold'' (ctx_String ctx ''stderrthreshold''),
      Ev_flag_Set ''log_backtrace_at'' (ctx_String ctx ''log_backtrace_at''),
      Ev_flag_Set ''log_dir'' (ctx_String ctx ''log_dir''),
      Ev_flag_Set ''vmodule'' (ctx_String ctx ''vmodule''),
      Ev_flag_Set ''v'' (ctx_String ctx ''v''),
      Ev_flag_Parse]"

text \<open>The events one run of the hook adds to the trace it started from.\<close>

definition new_events ::
  "('b, 'r, 's, 't, 'srv, 'cl) world \<Rightarrow> ('b, 'r, 's, 't, 'srv, 'cl) world \<Rightarrow> 'r event list" where
  "new_events w w' = drop (length (trace w)) (trace w')"

text \<open>
  Three names of the proofs: the map the loop ends with, the world after the four
  resolutions, and the world a run that returns leaves behind.
\<close>

definition metadata_of :: "string list \<Rightarrow> (string \<rightharpoonup> string)" where
  "metadata_of ds = foldl (\<lambda>m d. m(metadata_key d \<mapsto> metadata_value d)) Map.empty ds"

definition after_transport ::
  "('b, 'r, 's, 't) cmd \<Rightarrow> Context \<Rightarrow> ('b, 'r, 's, 't, 'srv, 'cl) world
     \<Rightarrow> ('b, 'r, 's, 't, 'srv, 'cl) world" where
  "after_transport c ctx w =
     Before_transport c ctx (Before_selector c ctx (Before_registry c ctx (Before_broker c ctx
       (fold emit (logging_events ctx) (w\<lparr>os_Args := [hd (os_Args w)]\<rparr>)))))"

definition result_world ::
  "('b, 'r, 's, 't, 'srv, 'cl) packages \<Rightarrow> ('b, 'r, 's, 't) cmd \<Rightarrow> Context
     \<Rightarrow> ('b, 'r, 's, 't, 'srv, 'cl) world \<Rightarrow> ('b, 'r, 's, 't, 'srv, 'cl) world" where
  "result_world pk c ctx w = (case Before pk c ctx w of Inl p \<Rightarrow> w | Inr (r, w') \<Rightarrow> w')"

text \<open>
  The step of section 4.4 of the specification that an event belongs to: 1 logging
  pass-through, 2 broker, 3 registry, 4 selector, 5 transport, 6 metadata assembly,
  7 server, 8 client.
\<close>

fun step_of :: "'r event \<Rightarrow> nat" where
  "step_of (Ev_flag_Set n v) = 1"
| "step_of Ev_flag_Parse = 1"
| "step_of (Ev_Broker k addrs) = 2"
| "step_of (Ev_Registry k addrs) = 3"
| "step_of (Ev_Selector k so) = 4"
| "step_of (Ev_Transport k addrs) = 5"
| "step_of Ev_make_map = 6"
| "step_of (Ev_map_assign k v) = 6"
| "step_of (Ev_NewServer so) = 7"
| "step_of Ev_NewClient = 8"

subsection \<open>Concrete inputs\<close>

text \<open>
  Inputs on which the theorems below are run. The packages return values that show
  what they were called with. \<open>supplied\<close> is the context the shell hands to the hook
  when the command line gives exactly the listed String flags and metadata tokens: a
  String flag that is not given reads as the default the flag table declares.
\<close>

definition supplied :: "(string \<times> string) list \<Rightarrow> string list \<Rightarrow> Context" where
  "supplied given tokens =
     \<lparr>ctx_String = (\<lambda>n. case map_of given n of
                           Some v \<Rightarrow> v
                         | None \<Rightarrow> (case StringFlag_Value DefaultFlags n of
                                      Some v \<Rightarrow> v
                                    | None \<Rightarrow> [])),
      ctx_StringSlice = (\<lambda>n. if n = ''server_metadata'' then tokens else []),
      ctx_Bool = (\<lambda>n. False)\<rparr>"

definition ex_packages ::
  "(string list, string list, string list selector_Option list, string list,
    server_Option list, nat) packages" where
  "ex_packages =
     \<lparr>broker_NewBroker = (\<lambda>addrs os. ''broker'' # addrs),
      registry_NewRegistry = (\<lambda>addrs os. ''registry'' # addrs),
      selector_NewSelector = (\<lambda>so. so),
      transport_NewTransport = (\<lambda>addrs os. ''transport'' # addrs),
      server_NewServer = (\<lambda>so. so),
      client_NewClient = (\<lambda>os. 1)\<rparr>"



definition ex_cmd ::
  "(string list, string list, string list selector_Option list, string list) cmd" where
  "ex_cmd =
     \<lparr>opts = \<lparr>Name = [], Version = [], Description = ''a go-micro service'',
               Brokers = DefaultBrokers ex_packages,
               Registries = DefaultRegistries ex_packages,
               Selectors = DefaultSelectors ex_packages,
               Transports = DefaultTransports ex_packages\<rparr>,
      app = \<lparr>app_Name = [], app_Version = [], app_Usage = ''a go-micro service'',
              app_Flags = DefaultFlags, app_HideVersion = True\<rparr>\<rparr>"








definition ex_world ::
  "(string list, string list, string list selector_Option list, string list,
    server_Option list, nat) world" where
  "ex_world =
     \<lparr>os_Args = [''svc'', ''--logtostderr=false''],
      broker_DefaultBroker = [''old broker''],
      registry_DefaultRegistry = [''old registry''],
      selector_DefaultSelector = [],
      transport_DefaultTransport = [''old transport''],
      server_DefaultServer = [],
      client_DefaultClient = 0,
      trace = []\<rparr>"

text \<open>The flags of the example of section 8 of the specification.\<close>

definition ex_ctx :: Context where
  "ex_ctx = supplied
     [(''broker'', ''http''), (''broker_address'', ''10.0.0.1:4222,10.0.0.2:4222''),
      (''registry'', ''consul''), (''selector'', ''random''),
      (''server_name'', ''svc.example'')]
     [''version=1.0.0'', ''env=prod'']"

text \<open>
  In every context built by \<open>supplied\<close> the logging flags are not given, so the
  hook forwards these values.
\<close>

definition ex_logging :: "string list event list" where
  "ex_logging =
     [Ev_flag_Set ''logtostderr'' ''false'',
      Ev_flag_Set ''alsologtostderr'' ''false'',
      Ev_flag_Set ''stderrthreshold'' '''',
      Ev_flag_Set ''log_backtrace_at'' '''',
      Ev_flag_Set ''log_dir'' '''',
      Ev_flag_Set ''vmodule'' '''',
      Ev_flag_Set ''v'' '''',
      Ev_flag_Parse]"

text \<open>The world the hook leaves on \<open>ex_ctx\<close>, started in \<open>ex_world\<close>.\<close>

definition ex_result ::
  "(string list, string list, string list selector_Option list, string list,
    server_Option list, nat) world" where
  "ex_result =
     \<lparr>os_Args = [''svc''],
      broker_DefaultBroker = [''broker'', ''10.0.0.1:4222'', ''10.0.0.2:4222''],
      registry_DefaultRegistry = [''registry'', ''''],
      selector_DefaultSelector = [selector_Registry [''registry'', '''']],
      transport_DefaultTransport = [''transport'', ''''],
      server_DefaultServer =
        [server_Name ''svc.example'', server_Version '''', server_Id '''',
         server_Address '':0'', server_Advertise '''',
         server_Metadata [''version'' \<mapsto> ''1.0.0'', ''env'' \<mapsto> ''prod'']],
      client_DefaultClient = 1,
      trace = ex_logging @
        [Ev_Broker ''http'' [''10.0.0.1:4222'', ''10.0.0.2:4222''],
         Ev_Registry ''consul'' [''''],
         Ev_Selector ''random'' [selector_Registry [''registry'', '''']],
         Ev_Transport ''http'' [''''],
         Ev_make_map,
         Ev_map_assign ''version'' ''1.0.0'',
         Ev_map_assign ''env'' ''prod'',
         Ev_NewServer
           [server_Name ''svc.example'', server_Version '''', server_Id '''',
            server_Address '':0'', server_Advertise '''',
            server_Metadata [''version'' \<mapsto> ''1.0.0'', ''env'' \<mapsto> ''prod'']],
         Ev_NewClient]\<rparr>"

text \<open>Four kind identifiers that the built-in tables do not hold.\<close>

definition unknown_ctx :: Context where
  "unknown_ctx = supplied
     [(''broker'', ''kafka''), (''registry'', ''zookeeper''), (''selector'', ''roundrobin''),
      (''transport'', ''grpc''), (''server_name'', ''svc.example'')]
     []"

definition unknown_result ::
  "(string list, string list, string list selector_Option list, string list,
    server_Option list, nat) world" where
  "unknown_result =
     \<lparr>os_Args = [''svc''],
      broker_DefaultBroker = [''old broker''],
      registry_DefaultRegistry = [''old registry''],
      selector_DefaultSelector = [],
      transport_DefaultTransport = [''old transport''],
      server_DefaultServer =
        [server_Name ''svc.example'', server_Version '''', server_Id '''',
         server_Address '':0'', server_Advertise '''', server_Metadata Map.empty],
      client_DefaultClient = 1,
      trace = ex_logging @
        [Ev_make_map,
         Ev_NewServer
           [server_Name ''svc.example'', server_Version '''', server_Id '''',
            server_Address '':0'', server_Advertise '''', server_Metadata Map.empty],
         Ev_NewClient]\<rparr>"

text \<open>No flag given at all: every String flag reads as its declared default.\<close>

definition defaults_ctx :: Context where
  "defaults_ctx = supplied [] []"

definition defaults_result ::
  "(string list, string list, string list selector_Option list, string list,
    server_Option list, nat) world" where
  "defaults_result =
     \<lparr>os_Args = [''svc''],
      broker_DefaultBroker = [''broker'', ''''],
      registry_DefaultRegistry = [''registry'', ''''],
      selector_DefaultSelector = [],
      transport_DefaultTransport = [''transport'', ''''],
      server_DefaultServer =
        [server_Name '''', server_Version '''', server_Id '''',
         server_Address '':0'', server_Advertise '''', server_Metadata Map.empty],
      client_DefaultClient = 1,
      trace = ex_logging @
        [Ev_Broker ''http'' [''''],
         Ev_Registry ''consul'' [''''],
         Ev_Transport ''http'' [''''],
         Ev_make_map,
         Ev_NewServer
           [server_Name '''', server_Version '''', server_Id '''',
            server_Address '':0'', server_Advertise '''', server_Metadata Map.empty],
         Ev_NewClient]\<rparr>"

text \<open>Address flags with neighbouring, leading and trailing commas and with blanks.\<close>

definition commas_ctx :: Context where
  "commas_ctx = supplied
     [(''broker_address'', ''a,,b,''), (''registry_address'', '',''),
      (''transport_address'', '' x ,x,x'')]
     []"

definition commas_result ::
  "(string list, string list, string list selector_Option list, string list,
    server_Option list, nat) world" where
  "commas_result =
     \<lparr>os_Args = [''svc''],
      broker_DefaultBroker = [''broker'', ''a'', '''', ''b'', ''''],
      registry_DefaultRegistry = [''registry'', '''', ''''],
      selector_DefaultSelector = [],
      transport_DefaultTransport = [''transport'', '' x '', ''x'', ''x''],
      server_DefaultServer =
        [server_Name '''', server_Version '''', server_Id '''',
         server_Address '':0'', server_Advertise '''', server_Metadata Map.empty],
      client_DefaultClient = 1,
      trace = ex_logging @
        [Ev_Broker ''http'' [''a'', '''', ''b'', ''''],
         Ev_Registry ''consul'' ['''', ''''],
         Ev_Transport ''http'' ['' x '', ''x'', ''x''],
         Ev_make_map,
         Ev_NewServer
           [server_Name '''', server_Version '''', server_Id '''',
            server_Address '':0'', server_Advertise '''', server_Metadata Map.empty],
         Ev_NewClient]\<rparr>"

text \<open>An unregistered registry kind together with the registered selector kind.\<close>

definition no_registry_ctx :: Context where
  "no_registry_ctx = supplied [(''registry'', ''etcd''), (''selector'', ''random'')] []"

definition no_registry_result ::
  "(string list, string list, string list selector_Option list, string list,
    server_Option list, nat) world" where
  "no_registry_result =
     \<lparr>os_Args = [''svc''],
      broker_DefaultBroker = [''broker'', ''''],
      registry_DefaultRegistry = [''old registry''],
      selector_DefaultSelector = [selector_Registry [''old registry'']],
      transport_DefaultTransport = [''transport'', ''''],
      server_DefaultServer =
        [server_Name '''', server_Version '''', server_Id '''',
         server_Address '':0'', server_Advertise '''', server_Metadata Map.empty],
      client_DefaultClient = 1,
      trace = ex_logging @
        [Ev_Broker ''http'' [''''],
         Ev_Selector ''random'' [selector_Registry [''old registry'']],
         Ev_Transport ''http'' [''''],
         Ev_make_map,
         Ev_NewServer
           [server_Name '''', server_Version '''', server_Id '''',
            server_Address '':0'', server_Advertise '''', server_Metadata Map.empty],
         Ev_NewClient]\<rparr>"

text \<open>Metadata tokens: a repeated key, several \<^verbatim>\<open>=\<close>, none, and one in front.\<close>

definition tokens_ctx :: Context where
  "tokens_ctx = supplied []
     [''version=1.0.0'', ''env=prod'', ''a=b=c'', ''bare'', ''env=dev'', ''=x'']"

section \<open>Lemmas\<close>

subsection \<open>Splitting and joining\<close>

lemma strings_Split_absent: "sep \<notin> set s \<Longrightarrow> strings_Split s sep = [s]"
  by (simp add: strings_Split.simps)

lemma strings_Split_present:
  "sep \<in> set s \<Longrightarrow>
     strings_Split s sep =
       takeWhile (\<lambda>c. c \<noteq> sep) s # strings_Split (tl (dropWhile (\<lambda>c. c \<noteq> sep) s)) sep"
  by (subst strings_Split.simps) simp

lemma strings_Split_not_Nil: "strings_Split s sep \<noteq> []"
  by (subst strings_Split.simps) simp

lemma cut_at_first:
  "sep \<in> set s \<Longrightarrow> s = takeWhile (\<lambda>c. c \<noteq> sep) s @ sep # tl (dropWhile (\<lambda>c. c \<noteq> sep) s)"
proof -
  assume a: "sep \<in> set s"
  then have "dropWhile (\<lambda>c. c \<noteq> sep) s \<noteq> []" by simp
  moreover have "hd (dropWhile (\<lambda>c. c \<noteq> sep) s) = sep"
    using a hd_dropWhile[of "\<lambda>c. c \<noteq> sep" s] by simp
  ultimately have "dropWhile (\<lambda>c. c \<noteq> sep) s = sep # tl (dropWhile (\<lambda>c. c \<noteq> sep) s)"
    by (cases "dropWhile (\<lambda>c. c \<noteq> sep) s") simp_all
  then show ?thesis
    using takeWhile_dropWhile_id[of "\<lambda>c. c \<noteq> sep" s] by simp
qed

lemma count_list_takeWhile_neq: "count_list (takeWhile (\<lambda>c. c \<noteq> sep) s) sep = 0"
  by (induction s) simp_all

lemma length_strings_Split: "length (strings_Split s sep) = count_list s sep + 1"
proof (induction s sep rule: strings_Split.induct)
  case (1 s sep)
  show ?case
  proof (cases "sep \<in> set s")
    case True
    have "count_list s sep =
            count_list (takeWhile (\<lambda>c. c \<noteq> sep) s @ sep # tl (dropWhile (\<lambda>c. c \<noteq> sep) s)) sep"
      using cut_at_first[OF True] by simp
    also have "\<dots> = count_list (tl (dropWhile (\<lambda>c. c \<noteq> sep) s)) sep + 1"
      by (simp add: count_list_takeWhile_neq)
    finally show ?thesis
      using True "1.IH" by (simp add: strings_Split_present)
  next
    case False
    then show ?thesis by (simp add: strings_Split_absent)
  qed
qed

lemma strings_Join_Cons:
  "es \<noteq> [] \<Longrightarrow> strings_Join (e # es) sep = e @ sep @ strings_Join es sep"
  by (cases es) simp_all

lemma strings_Join_Split: "strings_Join (strings_Split s sep) [sep] = s"
proof (induction s sep rule: strings_Split.induct)
  case (1 s sep)
  show ?case
  proof (cases "sep \<in> set s")
    case True
    then show ?thesis
      using "1.IH" cut_at_first[OF True]
      by (simp add: strings_Split_present strings_Join_Cons strings_Split_not_Nil)
  next
    case False
    then show ?thesis by (simp add: strings_Split_absent)
  qed
qed

lemma strings_Split_segments: "p \<in> set (strings_Split s sep) \<Longrightarrow> sep \<notin> set p"
proof (induction s sep arbitrary: p rule: strings_Split.induct)
  case (1 s sep)
  show ?case
  proof (cases "sep \<in> set s")
    case True
    with "1.prems" have "p = takeWhile (\<lambda>c. c \<noteq> sep) s \<or>
        p \<in> set (strings_Split (tl (dropWhile (\<lambda>c. c \<noteq> sep) s)) sep)"
      by (simp add: strings_Split_present)
    then show ?thesis
    proof
      assume "p = takeWhile (\<lambda>c. c \<noteq> sep) s"
      then show ?thesis by (auto dest: set_takeWhileD)
    next
      assume "p \<in> set (strings_Split (tl (dropWhile (\<lambda>c. c \<noteq> sep) s)) sep)"
      then show ?thesis using "1.IH"[OF True] by simp
    qed
  next
    case False
    with "1.prems" show ?thesis by (simp add: strings_Split_absent)
  qed
qed

lemma strings_Split_unique:
  "ps \<noteq> [] \<Longrightarrow> (\<forall>p \<in> set ps. sep \<notin> set p) \<Longrightarrow> strings_Split (strings_Join ps [sep]) sep = ps"
proof (induction ps)
  case Nil
  then show ?case by simp
next
  case (Cons p ps)
  show ?case
  proof (cases ps)
    case Nil
    with Cons.prems show ?thesis by (simp add: strings_Split_absent)
  next
    case (Cons q qs)
    from Cons.prems have p: "sep \<notin> set p" by simp
    have j: "strings_Join (p # ps) [sep] = p @ sep # strings_Join ps [sep]"
      using Cons by simp
    have tw: "takeWhile (\<lambda>c. c \<noteq> sep) (p @ sep # strings_Join ps [sep]) = p"
      using p by (subst takeWhile_append2) auto
    have dw: "dropWhile (\<lambda>c. c \<noteq> sep) (p @ sep # strings_Join ps [sep]) = sep # strings_Join ps [sep]"
      using p by (subst dropWhile_append2) auto
    have "strings_Split (strings_Join ps [sep]) sep = ps"
      using Cons.IH Cons.prems Cons by simp
    then show ?thesis
      unfolding j by (subst strings_Split.simps) (simp add: tw dw)
  qed
qed

subsection \<open>The metadata loop\<close>

lemma trace_emit: "trace (emit e w) = trace w @ [e]"
  by (simp add: emit_def)

lemma trace_fold_emit: "trace (fold emit es w) = trace w @ es"
  by (induction es arbitrary: w) (simp_all add: trace_emit)

lemma hd_strings_Split: "hd (strings_Split d sep) = takeWhile (\<lambda>c. c \<noteq> sep) d"
proof (cases "sep \<in> set d")
  case True
  then show ?thesis by (simp add: strings_Split_present)
next
  case False
  then have tw: "takeWhile (\<lambda>c. c \<noteq> sep) d = d"
    by (intro takeWhile_eq_all_conv[THEN iffD2]) auto
  show ?thesis by (simp only: strings_Split_absent[OF False] list.sel tw)
qed

lemma strings_Split_cases:
  "strings_Split d CHR ''='' = metadata_key d # tl (strings_Split d CHR ''='')"
  using hd_strings_Split[of d "CHR ''=''"] strings_Split_not_Nil[of d "CHR ''=''"]
  by (cases "strings_Split d CHR ''=''") (simp_all add: metadata_key_def)

lemma Join_tl_Split:
  "(if length (strings_Split d CHR ''='') > 1
    then strings_Join (tl (strings_Split d CHR ''='')) ''='' else []) = metadata_value d"
proof (cases "CHR ''='' \<in> set d")
  case True
  then show ?thesis
    by (simp add: strings_Split_present metadata_value_def strings_Join_Split
        length_strings_Split)
next
  case False
  then show ?thesis by (simp add: strings_Split_absent metadata_value_def)
qed

lemma metadata_loop_step:
  "metadata_loop (d # ds) (m, w) =
     metadata_loop ds (m(metadata_key d \<mapsto> metadata_value d),
                       emit (Ev_map_assign (metadata_key d) (metadata_value d)) w)"
proof -
  obtain rest where r: "strings_Split d CHR ''='' = metadata_key d # rest"
    using strings_Split_cases by blast
  have v: "(if length (strings_Split d CHR ''='') > 1 then strings_Join rest ''='' else [])
          = metadata_value d"
    using Join_tl_Split[of d] by (simp only: r list.sel)
  show ?thesis
    by (simp only: metadata_loop.simps Let_def) (simp only: r list.case v[unfolded r])
qed

lemma metadata_loop_eq:
  "metadata_loop ds (m, w) =
     Inr (foldl (\<lambda>m d. m(metadata_key d \<mapsto> metadata_value d)) m ds,
          fold (\<lambda>d. emit (Ev_map_assign (metadata_key d) (metadata_value d))) ds w)"
proof (induction ds arbitrary: m w)
  case Nil
  show ?case by simp
next
  case (Cons d ds)
  show ?case by (simp only: metadata_loop_step Cons.IH foldl_Cons fold_Cons o_apply)
qed

lemma foldl_upd_lookup:
  "foldl (\<lambda>m d. m(kf d \<mapsto> vf d)) m ds k =
     (case filter (\<lambda>d. kf d = k) (rev ds) of [] \<Rightarrow> m k | d # _ \<Rightarrow> Some (vf d))"
proof (induction ds rule: rev_induct)
  case Nil
  show ?case by simp
next
  case (snoc d ds)
  then show ?case by simp
qed

subsection \<open>The statements of the hook, variable by variable\<close>

lemma emit_fields:
  "os_Args (emit e w) = os_Args w"
  "broker_DefaultBroker (emit e w) = broker_DefaultBroker w"
  "registry_DefaultRegistry (emit e w) = registry_DefaultRegistry w"
  "selector_DefaultSelector (emit e w) = selector_DefaultSelector w"
  "transport_DefaultTransport (emit e w) = transport_DefaultTransport w"
  "server_DefaultServer (emit e w) = server_DefaultServer w"
  "client_DefaultClient (emit e w) = client_DefaultClient w"
  by (simp_all add: emit_def)

lemma fold_emit_fields:
  "os_Args (fold emit es w) = os_Args w"
  "broker_DefaultBroker (fold emit es w) = broker_DefaultBroker w"
  "registry_DefaultRegistry (fold emit es w) = registry_DefaultRegistry w"
  "selector_DefaultSelector (fold emit es w) = selector_DefaultSelector w"
  "transport_DefaultTransport (fold emit es w) = transport_DefaultTransport w"
  "server_DefaultServer (fold emit es w) = server_DefaultServer w"
  "client_DefaultClient (fold emit es w) = client_DefaultClient w"
  by (induction es arbitrary: w) (simp_all add: emit_fields)

lemma Before_logging_eq:
  "os_Args w \<noteq> [] \<Longrightarrow>
     Before_logging ctx w = Inr (fold emit (logging_events ctx) (w\<lparr>os_Args := [hd (os_Args w)]\<rparr>))"
  by (cases "os_Args w") (simp_all add: Before_logging_def logging_events_def)

lemma Before_logging_panic:
  "os_Args w = [] \<Longrightarrow> Before_logging ctx w = Inl slice_bounds_out_of_range"
  by (simp add: Before_logging_def)

lemma fold_emit_map:
  "fold (\<lambda>d. emit (Ev_map_assign (kf d) (vf d))) ds w =
     fold emit (map (\<lambda>d. Ev_map_assign (kf d) (vf d)) ds) w"
  by (simp add: fold_map o_def)

lemma Before_metadata_eq:
  "Before_metadata ctx w =
     Inr (metadata_of (ctx_StringSlice ctx ''server_metadata''),
          fold emit (Ev_make_map #
             map (\<lambda>d. Ev_map_assign (metadata_key d) (metadata_value d))
               (ctx_StringSlice ctx ''server_metadata'')) w)"
  by (simp only: Before_metadata_def metadata_loop_eq metadata_of_def fold_emit_map fold_Cons o_apply)

lemma Before_eq:
  "os_Args w \<noteq> [] \<Longrightarrow>
   Before pk c ctx w =
     Inr (None,
       Before_client pk
        (Before_server pk ctx (metadata_of (ctx_StringSlice ctx ''server_metadata''))
          (fold emit (Ev_make_map #
             map (\<lambda>d. Ev_map_assign (metadata_key d) (metadata_value d))
               (ctx_StringSlice ctx ''server_metadata''))
             (after_transport c ctx w))))"
proof -
  assume a: "os_Args w \<noteq> []"
  show ?thesis
    by (simp only: Before_def Before_logging_eq[OF a] Before_metadata_eq Let_def sum.case
        prod.case after_transport_def)
qed

lemma Before_panic: "os_Args w = [] \<Longrightarrow> Before pk c ctx w = Inl slice_bounds_out_of_range"
  by (simp add: Before_def Before_logging_panic)

lemma Before_broker_fields:
  "os_Args (Before_broker c ctx w) = os_Args w"
  "broker_DefaultBroker (Before_broker c ctx w) =
     (case Brokers (opts c) (ctx_String ctx ''broker'') of
        None \<Rightarrow> broker_DefaultBroker w
      | Some b \<Rightarrow> b (strings_Split (ctx_String ctx ''broker_address'') CHR '','') [])"
  "registry_DefaultRegistry (Before_broker c ctx w) = registry_DefaultRegistry w"
  "selector_DefaultSelector (Before_broker c ctx w) = selector_DefaultSelector w"
  "transport_DefaultTransport (Before_broker c ctx w) = transport_DefaultTransport w"
  "server_DefaultServer (Before_broker c ctx w) = server_DefaultServer w"
  "client_DefaultClient (Before_broker c ctx w) = client_DefaultClient w"
  "trace (Before_broker c ctx w) =
     trace w @ (case Brokers (opts c) (ctx_String ctx ''broker'') of
          None \<Rightarrow> []
        | Some b \<Rightarrow> [Ev_Broker (ctx_String ctx ''broker'')
                       (strings_Split (ctx_String ctx ''broker_address'') CHR '','')])"
  by (simp_all add: Before_broker_def Let_def emit_def split: option.split)

lemma Before_registry_fields:
  "os_Args (Before_registry c ctx w) = os_Args w"
  "broker_DefaultBroker (Before_registry c ctx w) = broker_DefaultBroker w"
  "registry_DefaultRegistry (Before_registry c ctx w) =
     (case Registries (opts c) (ctx_String ctx ''registry'') of
        None \<Rightarrow> registry_DefaultRegistry w
      | Some r \<Rightarrow> r (strings_Split (ctx_String ctx ''registry_address'') CHR '','') [])"
  "selector_DefaultSelector (Before_registry c ctx w) = selector_DefaultSelector w"
  "transport_DefaultTransport (Before_registry c ctx w) = transport_DefaultTransport w"
  "server_DefaultServer (Before_registry c ctx w) = server_DefaultServer w"
  "client_DefaultClient (Before_registry c ctx w) = client_DefaultClient w"
  "trace (Before_registry c ctx w) =
     trace w @ (case Registries (opts c) (ctx_String ctx ''registry'') of
          None \<Rightarrow> []
        | Some r \<Rightarrow> [Ev_Registry (ctx_String ctx ''registry'')
                       (strings_Split (ctx_String ctx ''registry_address'') CHR '','')])"
  by (simp_all add: Before_registry_def Let_def emit_def split: option.split)

lemma Before_selector_fields:
  "os_Args (Before_selector c ctx w) = os_Args w"
  "broker_DefaultBroker (Before_selector c ctx w) = broker_DefaultBroker w"
  "registry_DefaultRegistry (Before_selector c ctx w) = registry_DefaultRegistry w"
  "selector_DefaultSelector (Before_selector c ctx w) =
     (case Selectors (opts c) (ctx_String ctx ''selector'') of
        None \<Rightarrow> selector_DefaultSelector w
      | Some s \<Rightarrow> s [selector_Registry (registry_DefaultRegistry w)])"
  "transport_DefaultTransport (Before_selector c ctx w) = transport_DefaultTransport w"
  "server_DefaultServer (Before_selector c ctx w) = server_DefaultServer w"
  "client_DefaultClient (Before_selector c ctx w) = client_DefaultClient w"
  "trace (Before_selector c ctx w) =
     trace w @ (case Selectors (opts c) (ctx_String ctx ''selector'') of
          None \<Rightarrow> []
        | Some s \<Rightarrow> [Ev_Selector (ctx_String ctx ''selector'')
                       [selector_Registry (registry_DefaultRegistry w)]])"
  by (simp_all add: Before_selector_def Let_def emit_def split: option.split)

lemma Before_transport_fields:
  "os_Args (Before_transport c ctx w) = os_Args w"
  "broker_DefaultBroker (Before_transport c ctx w) = broker_DefaultBroker w"
  "registry_DefaultRegistry (Before_transport c ctx w) = registry_DefaultRegistry w"
  "selector_DefaultSelector (Before_transport c ctx w) = selector_DefaultSelector w"
  "transport_DefaultTransport (Before_transport c ctx w) =
     (case Transports (opts c) (ctx_String ctx ''transport'') of
        None \<Rightarrow> transport_DefaultTransport w
      | Some t \<Rightarrow> t (strings_Split (ctx_String ctx ''transport_address'') CHR '','') [])"
  "server_DefaultServer (Before_transport c ctx w) = server_DefaultServer w"
  "client_DefaultClient (Before_transport c ctx w) = client_DefaultClient w"
  "trace (Before_transport c ctx w) =
     trace w @ (case Transports (opts c) (ctx_String ctx ''transport'') of
          None \<Rightarrow> []
        | Some t \<Rightarrow> [Ev_Transport (ctx_String ctx ''transport'')
                       (strings_Split (ctx_String ctx ''transport_address'') CHR '','')])"
  by (simp_all add: Before_transport_def Let_def emit_def split: option.split)

lemma Before_server_fields:
  "os_Args (Before_server pk ctx m w) = os_Args w"
  "broker_DefaultBroker (Before_server pk ctx m w) = broker_DefaultBroker w"
  "registry_DefaultRegistry (Before_server pk ctx m w) = registry_DefaultRegistry w"
  "selector_DefaultSelector (Before_server pk ctx m w) = selector_DefaultSelector w"
  "transport_DefaultTransport (Before_server pk ctx m w) = transport_DefaultTransport w"
  "server_DefaultServer (Before_server pk ctx m w) =
     server_NewServer pk
       [server_Name (ctx_String ctx ''server_name''),
        server_Version (ctx_String ctx ''server_version''),
        server_Id (ctx_String ctx ''server_id''),
        server_Address (ctx_String ctx ''server_address''),
        server_Advertise (ctx_String ctx ''server_advertise''),
        server_Metadata m]"
  "client_DefaultClient (Before_server pk ctx m w) = client_DefaultClient w"
  "trace (Before_server pk ctx m w) =
     trace w @ [Ev_NewServer
       [server_Name (ctx_String ctx ''server_name''),
        server_Version (ctx_String ctx ''server_version''),
        server_Id (ctx_String ctx ''server_id''),
        server_Address (ctx_String ctx ''server_address''),
        server_Advertise (ctx_String ctx ''server_advertise''),
        server_Metadata m]]"
  by (simp_all add: Before_server_def Let_def emit_def)

lemma Before_client_fields:
  "os_Args (Before_client pk w) = os_Args w"
  "broker_DefaultBroker (Before_client pk w) = broker_DefaultBroker w"
  "registry_DefaultRegistry (Before_client pk w) = registry_DefaultRegistry w"
  "selector_DefaultSelector (Before_client pk w) = selector_DefaultSelector w"
  "transport_DefaultTransport (Before_client pk w) = transport_DefaultTransport w"
  "server_DefaultServer (Before_client pk w) = server_DefaultServer w"
  "client_DefaultClient (Before_client pk w) = client_NewClient pk []"
  "trace (Before_client pk w) = trace w @ [Ev_NewClient]"
  by (simp_all add: Before_client_def emit_def)

lemma after_transport_fields:
  "os_Args (after_transport c ctx w) = [hd (os_Args w)]"
  "broker_DefaultBroker (after_transport c ctx w) =
     (case Brokers (opts c) (ctx_String ctx ''broker'') of
        None \<Rightarrow> broker_DefaultBroker w
      | Some b \<Rightarrow> b (strings_Split (ctx_String ctx ''broker_address'') CHR '','') [])"
  "registry_DefaultRegistry (after_transport c ctx w) =
     (case Registries (opts c) (ctx_String ctx ''registry'') of
        None \<Rightarrow> registry_DefaultRegistry w
      | Some r \<Rightarrow> r (strings_Split (ctx_String ctx ''registry_address'') CHR '','') [])"
  "selector_DefaultSelector (after_transport c ctx w) =
     (case Selectors (opts c) (ctx_String ctx ''selector'') of
        None \<Rightarrow> selector_DefaultSelector w
      | Some s \<Rightarrow> s [selector_Registry
          (case Registries (opts c) (ctx_String ctx ''registry'') of
             None \<Rightarrow> registry_DefaultRegistry w
           | Some r \<Rightarrow> r (strings_Split (ctx_String ctx ''registry_address'') CHR '','') [])])"
  "transport_DefaultTransport (after_transport c ctx w) =
     (case Transports (opts c) (ctx_String ctx ''transport'') of
        None \<Rightarrow> transport_DefaultTransport w
      | Some t \<Rightarrow> t (strings_Split (ctx_String ctx ''transport_address'') CHR '','') [])"
  "server_DefaultServer (after_transport c ctx w) = server_DefaultServer w"
  "client_DefaultClient (after_transport c ctx w) = client_DefaultClient w"
  by (simp_all only: after_transport_def Before_transport_fields Before_selector_fields
      Before_registry_fields Before_broker_fields fold_emit_fields)
     (simp_all cong: option.case_cong)

lemma after_transport_trace:
  "trace (after_transport c ctx w) =
     trace w @ logging_events ctx
     @ (case Brokers (opts c) (ctx_String ctx ''broker'') of
          None \<Rightarrow> []
        | Some b \<Rightarrow> [Ev_Broker (ctx_String ctx ''broker'')
                       (strings_Split (ctx_String ctx ''broker_address'') CHR '','')])
     @ (case Registries (opts c) (ctx_String ctx ''registry'') of
          None \<Rightarrow> []
        | Some r \<Rightarrow> [Ev_Registry (ctx_String ctx ''registry'')
                       (strings_Split (ctx_String ctx ''registry_address'') CHR '','')])
     @ (case Selectors (opts c) (ctx_String ctx ''selector'') of
          None \<Rightarrow> []
        | Some s \<Rightarrow> [Ev_Selector (ctx_String ctx ''selector'')
                       [selector_Registry (registry_DefaultRegistry (after_transport c ctx w))]])
     @ (case Transports (opts c) (ctx_String ctx ''transport'') of
          None \<Rightarrow> []
        | Some t \<Rightarrow> [Ev_Transport (ctx_String ctx ''transport'')
                       (strings_Split (ctx_String ctx ''transport_address'') CHR '','')])"
  by (simp only: after_transport_fields)
     (simp only: after_transport_def Before_transport_fields Before_selector_fields
      Before_registry_fields Before_broker_fields fold_emit_fields trace_fold_emit append_assoc,
      simp cong: option.case_cong)

subsection \<open>One run of the hook\<close>

lemma new_events_append: "trace w' = trace w @ es \<Longrightarrow> new_events w w' = es"
  by (simp add: new_events_def)

lemma Before_run:
  assumes "os_Args w \<noteq> []"
  obtains w' where
    "Before pk c ctx w = Inr (None, w')"
    "os_Args w' = [hd (os_Args w)]"
    "broker_DefaultBroker w' =
       (case Brokers (opts c) (ctx_String ctx ''broker'') of
          None \<Rightarrow> broker_DefaultBroker w
        | Some b \<Rightarrow> b (strings_Split (ctx_String ctx ''broker_address'') CHR '','') [])"
    "registry_DefaultRegistry w' =
       (case Registries (opts c) (ctx_String ctx ''registry'') of
          None \<Rightarrow> registry_DefaultRegistry w
        | Some r \<Rightarrow> r (strings_Split (ctx_String ctx ''registry_address'') CHR '','') [])"
    "selector_DefaultSelector w' =
       (case Selectors (opts c) (ctx_String ctx ''selector'') of
          None \<Rightarrow> selector_DefaultSelector w
        | Some s \<Rightarrow> s [selector_Registry (registry_DefaultRegistry w')])"
    "transport_DefaultTransport w' =
       (case Transports (opts c) (ctx_String ctx ''transport'') of
          None \<Rightarrow> transport_DefaultTransport w
        | Some t \<Rightarrow> t (strings_Split (ctx_String ctx ''transport_address'') CHR '','') [])"
    "server_DefaultServer w' =
       server_NewServer pk
         [server_Name (ctx_String ctx ''server_name''),
          server_Version (ctx_String ctx ''server_version''),
          server_Id (ctx_String ctx ''server_id''),
          server_Address (ctx_String ctx ''server_address''),
          server_Advertise (ctx_String ctx ''server_advertise''),
          server_Metadata (metadata_of (ctx_StringSlice ctx ''server_metadata''))]"
    "client_DefaultClient w' = client_NewClient pk []"
    "new_events w w' =
       logging_events ctx
       @ (case Brokers (opts c) (ctx_String ctx ''broker'') of
            None \<Rightarrow> []
          | Some b \<Rightarrow> [Ev_Broker (ctx_String ctx ''broker'')
                         (strings_Split (ctx_String ctx ''broker_address'') CHR '','')])
       @ (case Registries (opts c) (ctx_String ctx ''registry'') of
            None \<Rightarrow> []
          | Some r \<Rightarrow> [Ev_Registry (ctx_String ctx ''registry'')
                         (strings_Split (ctx_String ctx ''registry_address'') CHR '','')])
       @ (case Selectors (opts c) (ctx_String ctx ''selector'') of
            None \<Rightarrow> []
          | Some s \<Rightarrow> [Ev_Selector (ctx_String ctx ''selector'')
                         [selector_Registry (registry_DefaultRegistry w')]])
       @ (case Transports (opts c) (ctx_String ctx ''transport'') of
            None \<Rightarrow> []
          | Some t \<Rightarrow> [Ev_Transport (ctx_String ctx ''transport'')
                         (strings_Split (ctx_String ctx ''transport_address'') CHR '','')])
       @ Ev_make_map
       # map (\<lambda>d. Ev_map_assign (metadata_key d) (metadata_value d))
           (ctx_StringSlice ctx ''server_metadata'')
       @ [Ev_NewServer
            [server_Name (ctx_String ctx ''server_name''),
             server_Version (ctx_String ctx ''server_version''),
             server_Id (ctx_String ctx ''server_id''),
             server_Address (ctx_String ctx ''server_address''),
             server_Advertise (ctx_String ctx ''server_advertise''),
             server_Metadata (metadata_of (ctx_StringSlice ctx ''server_metadata''))],
          Ev_NewClient]"
    "trace w' = trace w @ new_events w w'"
proof -
  define w1 where "w1 = after_transport c ctx w"
  define w2 where "w2 = fold emit (Ev_make_map #
             map (\<lambda>d. Ev_map_assign (metadata_key d) (metadata_value d))
               (ctx_StringSlice ctx ''server_metadata'')) w1"
  define w' where "w' = Before_client pk
        (Before_server pk ctx (metadata_of (ctx_StringSlice ctx ''server_metadata'')) w2)"
  have run: "Before pk c ctx w = Inr (None, w')"
    unfolding w'_def w2_def w1_def by (rule Before_eq[OF assms])
  have reg: "registry_DefaultRegistry w' = registry_DefaultRegistry w1"
    by (simp only: w'_def w2_def Before_client_fields Before_server_fields fold_emit_fields)
  have tr: "trace w' = trace w1 @ Ev_make_map
       # map (\<lambda>d. Ev_map_assign (metadata_key d) (metadata_value d))
           (ctx_StringSlice ctx ''server_metadata'')
       @ [Ev_NewServer
            [server_Name (ctx_String ctx ''server_name''),
             server_Version (ctx_String ctx ''server_version''),
             server_Id (ctx_String ctx ''server_id''),
             server_Address (ctx_String ctx ''server_address''),
             server_Advertise (ctx_String ctx ''server_advertise''),
             server_Metadata (metadata_of (ctx_StringSlice ctx ''server_metadata''))],
          Ev_NewClient]"
    by (simp only: w'_def w2_def Before_client_fields Before_server_fields trace_fold_emit)
       simp
  have tr1: "trace w1 = trace w @ logging_events ctx
       @ (case Brokers (opts c) (ctx_String ctx ''broker'') of
            None \<Rightarrow> []
          | Some b \<Rightarrow> [Ev_Broker (ctx_String ctx ''broker'')
                         (strings_Split (ctx_String ctx ''broker_address'') CHR '','')])
       @ (case Registries (opts c) (ctx_String ctx ''registry'') of
            None \<Rightarrow> []
          | Some r \<Rightarrow> [Ev_Registry (ctx_String ctx ''registry'')
                         (strings_Split (ctx_String ctx ''registry_address'') CHR '','')])
       @ (case Selectors (opts c) (ctx_String ctx ''selector'') of
            None \<Rightarrow> []
          | Some s \<Rightarrow> [Ev_Selector (ctx_String ctx ''selector'')
                         [selector_Registry (registry_DefaultRegistry w')]])
       @ (case Transports (opts c) (ctx_String ctx ''transport'') of
            None \<Rightarrow> []
          | Some t \<Rightarrow> [Ev_Transport (ctx_String ctx ''transport'')
                         (strings_Split (ctx_String ctx ''transport_address'') CHR '','')])"
    unfolding reg w1_def by (rule after_transport_trace)
  have ne: "new_events w w' =
       logging_events ctx
       @ (case Brokers (opts c) (ctx_String ctx ''broker'') of
            None \<Rightarrow> []
          | Some b \<Rightarrow> [Ev_Broker (ctx_String ctx ''broker'')
                         (strings_Split (ctx_String ctx ''broker_address'') CHR '','')])
       @ (case Registries (opts c) (ctx_String ctx ''registry'') of
            None \<Rightarrow> []
          | Some r \<Rightarrow> [Ev_Registry (ctx_String ctx ''registry'')
                         (strings_Split (ctx_String ctx ''registry_address'') CHR '','')])
       @ (case Selectors (opts c) (ctx_String ctx ''selector'') of
            None \<Rightarrow> []
          | Some s \<Rightarrow> [Ev_Selector (ctx_String ctx ''selector'')
                         [selector_Registry (registry_DefaultRegistry w')]])
       @ (case Transports (opts c) (ctx_String ctx ''transport'') of
            None \<Rightarrow> []
          | Some t \<Rightarrow> [Ev_Transport (ctx_String ctx ''transport'')
                         (strings_Split (ctx_String ctx ''transport_address'') CHR '','')])
       @ Ev_make_map
       # map (\<lambda>d. Ev_map_assign (metadata_key d) (metadata_value d))
           (ctx_StringSlice ctx ''server_metadata'')
       @ [Ev_NewServer
            [server_Name (ctx_String ctx ''server_name''),
             server_Version (ctx_String ctx ''server_version''),
             server_Id (ctx_String ctx ''server_id''),
             server_Address (ctx_String ctx ''server_address''),
             server_Advertise (ctx_String ctx ''server_advertise''),
             server_Metadata (metadata_of (ctx_StringSlice ctx ''server_metadata''))],
          Ev_NewClient]"
    by (rule new_events_append) (simp only: tr tr1 append_assoc)
  have full: "trace w' = trace w @ new_events w w'"
    unfolding ne by (simp only: tr tr1 append_assoc)
  have f1: "os_Args w' = [hd (os_Args w)]"
    by (simp only: w'_def w2_def w1_def Before_client_fields Before_server_fields
        fold_emit_fields after_transport_fields)
  have f2: "broker_DefaultBroker w' =
       (case Brokers (opts c) (ctx_String ctx ''broker'') of
          None \<Rightarrow> broker_DefaultBroker w
        | Some b \<Rightarrow> b (strings_Split (ctx_String ctx ''broker_address'') CHR '','') [])"
    by (simp only: w'_def w2_def w1_def Before_client_fields Before_server_fields
        fold_emit_fields after_transport_fields)
  have f3: "registry_DefaultRegistry w' =
       (case Registries (opts c) (ctx_String ctx ''registry'') of
          None \<Rightarrow> registry_DefaultRegistry w
        | Some r \<Rightarrow> r (strings_Split (ctx_String ctx ''registry_address'') CHR '','') [])"
    by (simp only: w'_def w2_def w1_def Before_client_fields Before_server_fields
        fold_emit_fields after_transport_fields)
  have f4: "selector_DefaultSelector w' =
       (case Selectors (opts c) (ctx_String ctx ''selector'') of
          None \<Rightarrow> selector_DefaultSelector w
        | Some s \<Rightarrow> s [selector_Registry (registry_DefaultRegistry w')])"
    unfolding f3
    by (simp only: w'_def w2_def w1_def Before_client_fields Before_server_fields
        fold_emit_fields after_transport_fields)
  have f5: "transport_DefaultTransport w' =
       (case Transports (opts c) (ctx_String ctx ''transport'') of
          None \<Rightarrow> transport_DefaultTransport w
        | Some t \<Rightarrow> t (strings_Split (ctx_String ctx ''transport_address'') CHR '','') [])"
    by (simp only: w'_def w2_def w1_def Before_client_fields Before_server_fields
        fold_emit_fields after_transport_fields)
  have f6: "server_DefaultServer w' =
       server_NewServer pk
         [server_Name (ctx_String ctx ''server_name''),
          server_Version (ctx_String ctx ''server_version''),
          server_Id (ctx_String ctx ''server_id''),
          server_Address (ctx_String ctx ''server_address''),
          server_Advertise (ctx_String ctx ''server_advertise''),
          server_Metadata (metadata_of (ctx_StringSlice ctx ''server_metadata''))]"
    by (simp only: w'_def w2_def w1_def Before_client_fields Before_server_fields)
  have f7: "client_DefaultClient w' = client_NewClient pk []"
    by (simp only: w'_def Before_client_fields)
  from that[OF run f1 f2 f3 f4 f5 f6 f7 ne full] show thesis .
qed

subsection \<open>The hook on the concrete inputs\<close>

lemmas hook_defs =
  Before_def Before_logging_def Before_broker_def Before_registry_def
  Before_selector_def Before_transport_def Before_metadata_def Before_server_def
  Before_client_def emit_def fmt_Sprintf_v_def Let_def strings_Split.simps

lemmas input_defs =
  ex_cmd_def ex_packages_def ex_world_def supplied_def DefaultFlags_def ex_logging_def
  DefaultBrokers_def DefaultRegistries_def DefaultSelectors_def DefaultTransports_def

lemma ex_world_args: "os_Args ex_world \<noteq> []"
  by (simp add: ex_world_def)

lemma ex_run:
  "Before ex_packages ex_cmd ex_ctx ex_world = Inr (None, ex_result)"
  by (simp add: hook_defs input_defs ex_ctx_def ex_result_def)

lemma unknown_run:
  "Before ex_packages ex_cmd unknown_ctx ex_world = Inr (None, unknown_result)"
  by (simp add: hook_defs input_defs unknown_ctx_def unknown_result_def)

lemma defaults_run:
  "Before ex_packages ex_cmd defaults_ctx ex_world = Inr (None, defaults_result)"
  by (simp add: hook_defs input_defs defaults_ctx_def defaults_result_def)

lemma commas_run:
  "Before ex_packages ex_cmd commas_ctx ex_world = Inr (None, commas_result)"
  by (simp add: hook_defs input_defs commas_ctx_def commas_result_def)

lemma no_registry_run:
  "Before ex_packages ex_cmd no_registry_ctx ex_world =
     Inr (None, no_registry_result)"
  by (simp add: hook_defs input_defs no_registry_ctx_def no_registry_result_def)

subsection \<open>Events by kind\<close>

lemma filter_map_assign:
  "filter P (map (\<lambda>d. Ev_map_assign (kf d) (vf d)) ds) =
     map (\<lambda>d. Ev_map_assign (kf d) (vf d)) (filter (\<lambda>d. P (Ev_map_assign (kf d) (vf d))) ds)"
  by (simp add: filter_map o_def)

lemma sorted_map_const: "sorted (map (\<lambda>x. (n :: nat)) ds)"
  by (induction ds) simp_all

lemma filter_hook_events:
  assumes "new_events w w' =
       logging_events ctx
       @ (case bo of None \<Rightarrow> [] | Some b \<Rightarrow> [Ev_Broker bk ba])
       @ (case ro of None \<Rightarrow> [] | Some r \<Rightarrow> [Ev_Registry rk ra])
       @ (case so of None \<Rightarrow> [] | Some s \<Rightarrow> [Ev_Selector sk sa])
       @ (case to of None \<Rightarrow> [] | Some t \<Rightarrow> [Ev_Transport tk ta])
       @ Ev_make_map # map (\<lambda>d. Ev_map_assign (kf d) (vf d)) ds
       @ [Ev_NewServer srv, Ev_NewClient]"
  shows "filter is_Ev_Broker (new_events w w') =
           (case bo of None \<Rightarrow> [] | Some b \<Rightarrow> [Ev_Broker bk ba])"
    and "filter is_Ev_Registry (new_events w w') =
           (case ro of None \<Rightarrow> [] | Some r \<Rightarrow> [Ev_Registry rk ra])"
    and "filter is_Ev_Selector (new_events w w') =
           (case so of None \<Rightarrow> [] | Some s \<Rightarrow> [Ev_Selector sk sa])"
    and "filter is_Ev_Transport (new_events w w') =
           (case to of None \<Rightarrow> [] | Some t \<Rightarrow> [Ev_Transport tk ta])"
    and "filter is_Ev_NewServer (new_events w w') = [Ev_NewServer srv]"
    and "filter is_Ev_NewClient (new_events w w') = [Ev_NewClient]"
    and "sorted (map step_of (new_events w w'))"
  unfolding assms
  by (simp_all add: logging_events_def filter_map_assign sorted_append o_def
      sorted_map_const split: option.split)

subsection \<open>The world a run leaves behind\<close>

lemma Before_result:
  assumes "os_Args w \<noteq> []"
  shows "Before pk c ctx w = Inr (None, result_world pk c ctx w)"
proof -
  obtain w' where "Before pk c ctx w = Inr (None, w')"
    by (rule Before_run[OF assms, of pk c ctx])
  then show ?thesis by (simp add: result_world_def)
qed

lemma Before_returns_only_nil:
  assumes "Before pk c ctx w = Inr (r, w')"
  shows "os_Args w \<noteq> []" and "r = None" and "w' = result_world pk c ctx w"
proof -
  show a: "os_Args w \<noteq> []"
    using assms Before_panic[of w pk c ctx] by auto
  show "r = None" and "w' = result_world pk c ctx w"
    using assms Before_result[OF a, of pk c ctx] by simp_all
qed

lemma result_fields:
  assumes "os_Args w \<noteq> []"
  shows "broker_DefaultBroker (result_world pk c ctx w) =
       (case Brokers (opts c) (ctx_String ctx ''broker'') of
          None \<Rightarrow> broker_DefaultBroker w
        | Some b \<Rightarrow> b (strings_Split (ctx_String ctx ''broker_address'') CHR '','') [])"
    and "registry_DefaultRegistry (result_world pk c ctx w) =
       (case Registries (opts c) (ctx_String ctx ''registry'') of
          None \<Rightarrow> registry_DefaultRegistry w
        | Some r \<Rightarrow> r (strings_Split (ctx_String ctx ''registry_address'') CHR '','') [])"
    and "selector_DefaultSelector (result_world pk c ctx w) =
       (case Selectors (opts c) (ctx_String ctx ''selector'') of
          None \<Rightarrow> selector_DefaultSelector w
        | Some s \<Rightarrow> s [selector_Registry (registry_DefaultRegistry (result_world pk c ctx w))])"
    and "transport_DefaultTransport (result_world pk c ctx w) =
       (case Transports (opts c) (ctx_String ctx ''transport'') of
          None \<Rightarrow> transport_DefaultTransport w
        | Some t \<Rightarrow> t (strings_Split (ctx_String ctx ''transport_address'') CHR '','') [])"
    and "server_DefaultServer (result_world pk c ctx w) =
       server_NewServer pk
         [server_Name (ctx_String ctx ''server_name''),
          server_Version (ctx_String ctx ''server_version''),
          server_Id (ctx_String ctx ''server_id''),
          server_Address (ctx_String ctx ''server_address''),
          server_Advertise (ctx_String ctx ''server_advertise''),
          server_Metadata (metadata_of (ctx_StringSlice ctx ''server_metadata''))]"
    and "client_DefaultClient (result_world pk c ctx w) = client_NewClient pk []"
    and "trace (result_world pk c ctx w) = trace w @ new_events w (result_world pk c ctx w)"
proof -
  obtain w' where run: "Before pk c ctx w = Inr (None, w')"
    and f:
    "broker_DefaultBroker w' =
       (case Brokers (opts c) (ctx_String ctx ''broker'') of
          None \<Rightarrow> broker_DefaultBroker w
        | Some b \<Rightarrow> b (strings_Split (ctx_String ctx ''broker_address'') CHR '','') [])"
    "registry_DefaultRegistry w' =
       (case Registries (opts c) (ctx_String ctx ''registry'') of
          None \<Rightarrow> registry_DefaultRegistry w
        | Some r \<Rightarrow> r (strings_Split (ctx_String ctx ''registry_address'') CHR '','') [])"
    "selector_DefaultSelector w' =
       (case Selectors (opts c) (ctx_String ctx ''selector'') of
          None \<Rightarrow> selector_DefaultSelector w
        | Some s \<Rightarrow> s [selector_Registry (registry_DefaultRegistry w')])"
    "transport_DefaultTransport w' =
       (case Transports (opts c) (ctx_String ctx ''transport'') of
          None \<Rightarrow> transport_DefaultTransport w
        | Some t \<Rightarrow> t (strings_Split (ctx_String ctx ''transport_address'') CHR '','') [])"
    "server_DefaultServer w' =
       server_NewServer pk
         [server_Name (ctx_String ctx ''server_name''),
          server_Version (ctx_String ctx ''server_version''),
          server_Id (ctx_String ctx ''server_id''),
          server_Address (ctx_String ctx ''server_address''),
          server_Advertise (ctx_String ctx ''server_advertise''),
          server_Metadata (metadata_of (ctx_StringSlice ctx ''server_metadata''))]"
    "client_DefaultClient w' = client_NewClient pk []"
    "trace w' = trace w @ new_events w w'"
    by (rule Before_run[OF assms, of pk c ctx])
  have w': "result_world pk c ctx w = w'"
    using run by (simp add: result_world_def)
  show "broker_DefaultBroker (result_world pk c ctx w) =
       (case Brokers (opts c) (ctx_String ctx ''broker'') of
          None \<Rightarrow> broker_DefaultBroker w
        | Some b \<Rightarrow> b (strings_Split (ctx_String ctx ''broker_address'') CHR '','') [])"
    unfolding w' by (rule f)
  show "registry_DefaultRegistry (result_world pk c ctx w) =
       (case Registries (opts c) (ctx_String ctx ''registry'') of
          None \<Rightarrow> registry_DefaultRegistry w
        | Some r \<Rightarrow> r (strings_Split (ctx_String ctx ''registry_address'') CHR '','') [])"
    unfolding w' by (rule f)
  show "selector_DefaultSelector (result_world pk c ctx w) =
       (case Selectors (opts c) (ctx_String ctx ''selector'') of
          None \<Rightarrow> selector_DefaultSelector w
        | Some s \<Rightarrow> s [selector_Registry (registry_DefaultRegistry (result_world pk c ctx w))])"
    unfolding w' by (rule f)
  show "transport_DefaultTransport (result_world pk c ctx w) =
       (case Transports (opts c) (ctx_String ctx ''transport'') of
          None \<Rightarrow> transport_DefaultTransport w
        | Some t \<Rightarrow> t (strings_Split (ctx_String ctx ''transport_address'') CHR '','') [])"
    unfolding w' by (rule f)
  show "server_DefaultServer (result_world pk c ctx w) =
       server_NewServer pk
         [server_Name (ctx_String ctx ''server_name''),
          server_Version (ctx_String ctx ''server_version''),
          server_Id (ctx_String ctx ''server_id''),
          server_Address (ctx_String ctx ''server_address''),
          server_Advertise (ctx_String ctx ''server_advertise''),
          server_Metadata (metadata_of (ctx_StringSlice ctx ''server_metadata''))]"
    unfolding w' by (rule f)
  show "client_DefaultClient (result_world pk c ctx w) = client_NewClient pk []"
    unfolding w' by (rule f)
  show "trace (result_world pk c ctx w) = trace w @ new_events w (result_world pk c ctx w)"
    unfolding w' by (rule f)
qed

lemma result_events:
  assumes "os_Args w \<noteq> []"
  shows "new_events w (result_world pk c ctx w) =
       logging_events ctx
       @ (case Brokers (opts c) (ctx_String ctx ''broker'') of
            None \<Rightarrow> []
          | Some b \<Rightarrow> [Ev_Broker (ctx_String ctx ''broker'')
                         (strings_Split (ctx_String ctx ''broker_address'') CHR '','')])
       @ (case Registries (opts c) (ctx_String ctx ''registry'') of
            None \<Rightarrow> []
          | Some r \<Rightarrow> [Ev_Registry (ctx_String ctx ''registry'')
                         (strings_Split (ctx_String ctx ''registry_address'') CHR '','')])
       @ (case Selectors (opts c) (ctx_String ctx ''selector'') of
            None \<Rightarrow> []
          | Some s \<Rightarrow> [Ev_Selector (ctx_String ctx ''selector'')
                         [selector_Registry (registry_DefaultRegistry (result_world pk c ctx w))]])
       @ (case Transports (opts c) (ctx_String ctx ''transport'') of
            None \<Rightarrow> []
          | Some t \<Rightarrow> [Ev_Transport (ctx_String ctx ''transport'')
                         (strings_Split (ctx_String ctx ''transport_address'') CHR '','')])
       @ Ev_make_map
       # map (\<lambda>d. Ev_map_assign (metadata_key d) (metadata_value d))
           (ctx_StringSlice ctx ''server_metadata'')
       @ [Ev_NewServer
            [server_Name (ctx_String ctx ''server_name''),
             server_Version (ctx_String ctx ''server_version''),
             server_Id (ctx_String ctx ''server_id''),
             server_Address (ctx_String ctx ''server_address''),
             server_Advertise (ctx_String ctx ''server_advertise''),
             server_Metadata (metadata_of (ctx_StringSlice ctx ''server_metadata''))],
          Ev_NewClient]"
proof -
  obtain w' where run: "Before pk c ctx w = Inr (None, w')"
    and ne: "new_events w w' =
       logging_events ctx
       @ (case Brokers (opts c) (ctx_String ctx ''broker'') of
            None \<Rightarrow> []
          | Some b \<Rightarrow> [Ev_Broker (ctx_String ctx ''broker'')
                         (strings_Split (ctx_String ctx ''broker_address'') CHR '','')])
       @ (case Registries (opts c) (ctx_String ctx ''registry'') of
            None \<Rightarrow> []
          | Some r \<Rightarrow> [Ev_Registry (ctx_String ctx ''registry'')
                         (strings_Split (ctx_String ctx ''registry_address'') CHR '','')])
       @ (case Selectors (opts c) (ctx_String ctx ''selector'') of
            None \<Rightarrow> []
          | Some s \<Rightarrow> [Ev_Selector (ctx_String ctx ''selector'')
                         [selector_Registry (registry_DefaultRegistry w')]])
       @ (case Transports (opts c) (ctx_String ctx ''transport'') of
            None \<Rightarrow> []
          | Some t \<Rightarrow> [Ev_Transport (ctx_String ctx ''transport'')
                         (strings_Split (ctx_String ctx ''transport_address'') CHR '','')])
       @ Ev_make_map
       # map (\<lambda>d. Ev_map_assign (metadata_key d) (metadata_value d))
           (ctx_StringSlice ctx ''server_metadata'')
       @ [Ev_NewServer
            [server_Name (ctx_String ctx ''server_name''),
             server_Version (ctx_String ctx ''server_version''),
             server_Id (ctx_String ctx ''server_id''),
             server_Address (ctx_String ctx ''server_address''),
             server_Advertise (ctx_String ctx ''server_advertise''),
             server_Metadata (metadata_of (ctx_StringSlice ctx ''server_metadata''))],
          Ev_NewClient]"
    by (rule Before_run[OF assms, of pk c ctx])
  have w': "result_world pk c ctx w = w'"
    using run by (simp add: result_world_def)
  show ?thesis unfolding w' by (rule ne)
qed

lemma result_events_by_kind:
  assumes "os_Args w \<noteq> []"
  shows "filter is_Ev_Broker (new_events w (result_world pk c ctx w)) =
       (case Brokers (opts c) (ctx_String ctx ''broker'') of
            None \<Rightarrow> []
          | Some b \<Rightarrow> [Ev_Broker (ctx_String ctx ''broker'')
                         (strings_Split (ctx_String ctx ''broker_address'') CHR '','')])"
    and "filter is_Ev_Registry (new_events w (result_world pk c ctx w)) =
       (case Registries (opts c) (ctx_String ctx ''registry'') of
            None \<Rightarrow> []
          | Some r \<Rightarrow> [Ev_Registry (ctx_String ctx ''registry'')
                         (strings_Split (ctx_String ctx ''registry_address'') CHR '','')])"
    and "filter is_Ev_Selector (new_events w (result_world pk c ctx w)) =
       (case Selectors (opts c) (ctx_String ctx ''selector'') of
            None \<Rightarrow> []
          | Some s \<Rightarrow> [Ev_Selector (ctx_String ctx ''selector'')
                         [selector_Registry (registry_DefaultRegistry (result_world pk c ctx w))]])"
    and "filter is_Ev_Transport (new_events w (result_world pk c ctx w)) =
       (case Transports (opts c) (ctx_String ctx ''transport'') of
            None \<Rightarrow> []
          | Some t \<Rightarrow> [Ev_Transport (ctx_String ctx ''transport'')
                         (strings_Split (ctx_String ctx ''transport_address'') CHR '','')])"
    and "filter is_Ev_NewServer (new_events w (result_world pk c ctx w)) =
       [Ev_NewServer
            [server_Name (ctx_String ctx ''server_name''),
             server_Version (ctx_String ctx ''server_version''),
             server_Id (ctx_String ctx ''server_id''),
             server_Address (ctx_String ctx ''server_address''),
             server_Advertise (ctx_String ctx ''server_advertise''),
             server_Metadata (metadata_of (ctx_StringSlice ctx ''server_metadata''))]]"
    and "filter is_Ev_NewClient (new_events w (result_world pk c ctx w)) = [Ev_NewClient]"
    and "sorted (map step_of (new_events w (result_world pk c ctx w)))"
  by (rule filter_hook_events[OF result_events[OF assms, of pk c ctx]])+

subsection \<open>Facts about the tables and the concrete inputs\<close>

lemma commas_strings:
  "ctx_String commas_ctx ''broker_address'' = ''a,,b,''"
  "ctx_String commas_ctx ''registry_address'' = '',''"
  "ctx_String commas_ctx ''transport_address'' = '' x ,x,x''"
  by (simp_all add: commas_ctx_def supplied_def)

lemma commas_events:
  "new_events ex_world commas_result =
     ex_logging @
        [Ev_Broker ''http'' [''a'', '''', ''b'', ''''],
         Ev_Registry ''consul'' ['''', ''''],
         Ev_Transport ''http'' ['' x '', ''x'', ''x''],
         Ev_make_map,
         Ev_NewServer
           [server_Name '''', server_Version '''', server_Id '''',
            server_Address '':0'', server_Advertise '''', server_Metadata Map.empty],
         Ev_NewClient]"
  by (simp add: new_events_def commas_result_def ex_world_def)

lemma unknown_kinds:
  "ctx_String unknown_ctx ''broker'' = ''kafka''"
  "ctx_String unknown_ctx ''registry'' = ''zookeeper''"
  "ctx_String unknown_ctx ''selector'' = ''roundrobin''"
  "ctx_String unknown_ctx ''transport'' = ''grpc''"
  by (simp_all add: unknown_ctx_def supplied_def)

lemma builtin_tables:
  "Brokers (opts ex_cmd) = DefaultBrokers ex_packages"
  "Registries (opts ex_cmd) = DefaultRegistries ex_packages"
  "Selectors (opts ex_cmd) = DefaultSelectors ex_packages"
  "Transports (opts ex_cmd) = DefaultTransports ex_packages"
  by (simp_all add: ex_cmd_def)





lemma builtin_keys:
  "dom (DefaultBrokers pk) = {''http''}"
  "dom (DefaultRegistries pk) = {''consul''}"
  "dom (DefaultSelectors pk) = {''random''}"
  "dom (DefaultTransports pk) = {''http''}"
  by (simp_all add: DefaultBrokers_def DefaultRegistries_def DefaultSelectors_def
      DefaultTransports_def)

lemma ex_strings:
  "ctx_String ex_ctx ''broker'' = ''http''"
  "ctx_String ex_ctx ''broker_address'' = ''10.0.0.1:4222,10.0.0.2:4222''"
  "ctx_String ex_ctx ''registry'' = ''consul''"
  "ctx_String ex_ctx ''registry_address'' = ''''"
  "ctx_String ex_ctx ''selector'' = ''random''"
  "ctx_String ex_ctx ''transport'' = ''http''"
  "ctx_String ex_ctx ''transport_address'' = ''''"
  by (simp_all add: ex_ctx_def supplied_def DefaultFlags_def)

lemma builtin_entries:
  "DefaultBrokers pk ''http'' = Some (broker_NewBroker pk)"
  "DefaultRegistries pk ''consul'' = Some (registry_NewRegistry pk)"
  "DefaultSelectors pk ''random'' = Some (selector_NewSelector pk)"
  "DefaultTransports pk ''http'' = Some (transport_NewTransport pk)"
  by (simp_all add: DefaultBrokers_def DefaultRegistries_def DefaultSelectors_def
      DefaultTransports_def)

lemma ex_splits:
  "strings_Split ''10.0.0.1:4222,10.0.0.2:4222'' CHR '','' = [''10.0.0.1:4222'', ''10.0.0.2:4222'']"
  "strings_Split '''' CHR '','' = ['''']"
  by (simp_all add: strings_Split.simps)

lemma ex_events:
  "new_events ex_world ex_result =
     ex_logging @
        [Ev_Broker ''http'' [''10.0.0.1:4222'', ''10.0.0.2:4222''],
         Ev_Registry ''consul'' [''''],
         Ev_Selector ''random'' [selector_Registry [''registry'', '''']],
         Ev_Transport ''http'' [''''],
         Ev_make_map,
         Ev_map_assign ''version'' ''1.0.0'',
         Ev_map_assign ''env'' ''prod'',
         Ev_NewServer
           [server_Name ''svc.example'', server_Version '''', server_Id '''',
            server_Address '':0'', server_Advertise '''',
            server_Metadata [''version'' \<mapsto> ''1.0.0'', ''env'' \<mapsto> ''prod'']],
         Ev_NewClient]"
  by (simp add: new_events_def ex_result_def ex_world_def)

lemma unknown_strings:
  "ctx_String unknown_ctx ''server_name'' = ''svc.example''"
  "ctx_String unknown_ctx ''server_version'' = ''''"
  "ctx_String unknown_ctx ''server_id'' = ''''"
  "ctx_String unknown_ctx ''server_address'' = '':0''"
  "ctx_String unknown_ctx ''server_advertise'' = ''''"
  "ctx_StringSlice unknown_ctx ''server_metadata'' = []"
  by (simp_all add: unknown_ctx_def supplied_def DefaultFlags_def)

lemma defaults_strings:
  "ctx_String defaults_ctx ''broker'' = ''http''"
  "ctx_String defaults_ctx ''registry'' = ''consul''"
  "ctx_String defaults_ctx ''selector'' = ''selector''"
  "ctx_String defaults_ctx ''transport'' = ''http''"
  "ctx_String defaults_ctx ''registry_address'' = ''''"
  by (simp_all add: defaults_ctx_def supplied_def DefaultFlags_def)

lemma no_registry_strings:
  "ctx_String no_registry_ctx ''registry'' = ''etcd''"
  "ctx_String no_registry_ctx ''selector'' = ''random''"
  by (simp_all add: no_registry_ctx_def supplied_def)

section \<open>The claims\<close>

text \<open>
  C1. The hook runs its steps in one fixed order, whatever the flags are: the events
  it adds to the trace are those of the logging pass-through, then the broker call,
  the registry call, the selector call and the transport call (each present exactly
  when its kind is registered), then the allocation of the metadata map and one write
  per token, then the server construction, then the client construction. The
  selector factory is called with the value the default-registry variable holds
  once the registry statement of lines 228 to 230 has run, and the registry call
  stands before the selector call in the trace. The process argument list is assumed
  to hold the program name.
\<close>

theorem steps_run_in_order:
  fixes w :: "('b, 'r, 's, 't, 'srv, 'cl) world"
  assumes "os_Args w \<noteq> []"
  shows "\<exists>w1 w' m. Before_logging ctx w = Inr w1 \<and> Before pk c ctx w = Inr (None, w') \<and>
     (\<forall>w5 :: ('b, 'r, 's, 't, 'srv, 'cl) world. \<exists>w6. Before_metadata ctx w5 = Inr (m, w6)) \<and>
     (let reg = registry_DefaultRegistry (Before_registry c ctx (Before_broker c ctx w1))
      in reg = (case Registries (opts c) (ctx_String ctx ''registry'') of
                  None \<Rightarrow> registry_DefaultRegistry w
                | Some r \<Rightarrow> r (strings_Split (ctx_String ctx ''registry_address'') CHR '','') [])
         \<and> selector_DefaultSelector w' =
              (case Selectors (opts c) (ctx_String ctx ''selector'') of
                 None \<Rightarrow> selector_DefaultSelector w
               | Some s \<Rightarrow> s [selector_Registry reg])
         \<and> trace w' = trace w
             @ logging_events ctx
             @ (case Brokers (opts c) (ctx_String ctx ''broker'') of
                  None \<Rightarrow> []
                | Some b \<Rightarrow> [Ev_Broker (ctx_String ctx ''broker'')
                     (strings_Split (ctx_String ctx ''broker_address'') CHR '','')])
             @ (case Registries (opts c) (ctx_String ctx ''registry'') of
                  None \<Rightarrow> []
                | Some r \<Rightarrow> [Ev_Registry (ctx_String ctx ''registry'')
                     (strings_Split (ctx_String ctx ''registry_address'') CHR '','')])
             @ (case Selectors (opts c) (ctx_String ctx ''selector'') of
                  None \<Rightarrow> []
                | Some s \<Rightarrow> [Ev_Selector (ctx_String ctx ''selector'') [selector_Registry reg]])
             @ (case Transports (opts c) (ctx_String ctx ''transport'') of
                  None \<Rightarrow> []
                | Some t \<Rightarrow> [Ev_Transport (ctx_String ctx ''transport'')
                     (strings_Split (ctx_String ctx ''transport_address'') CHR '','')])
             @ Ev_make_map
             # map (\<lambda>d. Ev_map_assign (hd (strings_Split d CHR ''=''))
                          (if length (strings_Split d CHR ''='') > 1
                           then strings_Join (tl (strings_Split d CHR ''='')) ''='' else []))
                 (ctx_StringSlice ctx ''server_metadata'')
             @ [Ev_NewServer
                  [server_Name (ctx_String ctx ''server_name''),
                   server_Version (ctx_String ctx ''server_version''),
                   server_Id (ctx_String ctx ''server_id''),
                   server_Address (ctx_String ctx ''server_address''),
                   server_Advertise (ctx_String ctx ''server_advertise''),
                   server_Metadata m],
                Ev_NewClient])
     \<and> sorted (map step_of (new_events w w'))"
proof -
  define w1 where "w1 = fold emit (logging_events ctx) (w\<lparr>os_Args := [hd (os_Args w)]\<rparr>)"
  define w' where "w' = result_world pk c ctx w"
  have l: "Before_logging ctx w = Inr w1"
    unfolding w1_def by (rule Before_logging_eq[OF assms])
  have run: "Before pk c ctx w = Inr (None, w')"
    unfolding w'_def by (rule Before_result[OF assms])
  have reg: "registry_DefaultRegistry (Before_registry c ctx (Before_broker c ctx w1)) =
      (case Registries (opts c) (ctx_String ctx ''registry'') of
                  None \<Rightarrow> registry_DefaultRegistry w
                | Some r \<Rightarrow> r (strings_Split (ctx_String ctx ''registry_address'') CHR '','') [])"
    by (simp only: Before_registry_fields Before_broker_fields w1_def fold_emit_fields)
       (simp cong: option.case_cong)
  have reg': "registry_DefaultRegistry w' =
      registry_DefaultRegistry (Before_registry c ctx (Before_broker c ctx w1))"
    unfolding reg w'_def by (rule result_fields(2)[OF assms])
  have kv: "(\<lambda>d. Ev_map_assign (hd (strings_Split d CHR ''=''))
                          (if length (strings_Split d CHR ''='') > 1
                           then strings_Join (tl (strings_Split d CHR ''='')) ''='' else []))
        = (\<lambda>d. Ev_map_assign (metadata_key d) (metadata_value d) :: 'r event)"
    by (simp only: hd_strings_Split Join_tl_Split metadata_key_def)
  have tr: "trace w' = trace w @ new_events w w'"
    unfolding w'_def by (rule result_fields(7)[OF assms])
  show ?thesis
    apply (rule exI[of _ w1], rule exI[of _ w'],
        rule exI[of _ "metadata_of (ctx_StringSlice ctx ''server_metadata'')"], intro conjI l run)
    subgoal by (simp add: Before_metadata_eq)
    subgoal
      unfolding Let_def
      apply (intro conjI)
      subgoal by (rule reg)
      subgoal unfolding reg'[symmetric] w'_def by (rule result_fields(3)[OF assms])
      subgoal unfolding reg'[symmetric] kv tr
        unfolding w'_def by (simp only: result_events[OF assms, of pk c ctx])
      done
    subgoal unfolding w'_def by (rule result_events_by_kind(7)[OF assms])
    done
qed

theorem steps_run_in_order_witness:
  "os_Args ex_world \<noteq> [] \<and>
   Before ex_packages ex_cmd ex_ctx ex_world = Inr (None, ex_result) \<and>
   sorted (map step_of (new_events ex_world ex_result)) \<and>
   map step_of (new_events ex_world ex_result) =
     [1, 1, 1, 1, 1, 1, 1, 1, 2, 3, 4, 5, 6, 6, 6, 7, 8] \<and>
   registry_DefaultRegistry ex_result = [''registry'', ''''] \<and>
   selector_DefaultSelector ex_result = [selector_Registry [''registry'', '''']]"
proof -
  from steps_run_in_order[OF ex_world_args, of ex_ctx ex_packages ex_cmd]
  obtain w' where run: "Before ex_packages ex_cmd ex_ctx ex_world = Inr (None, w')"
    and s: "sorted (map step_of (new_events ex_world w'))"
    by blast
  have w': "w' = ex_result" using run ex_run by simp
  have e: "map step_of (new_events ex_world ex_result) =
     [1, 1, 1, 1, 1, 1, 1, 1, 2, 3, 4, 5, 6, 6, 6, 7, 8]"
    by (simp add: ex_events ex_logging_def)
  have v: "registry_DefaultRegistry ex_result = [''registry'', '''']"
    "selector_DefaultSelector ex_result = [selector_Registry [''registry'', '''']]"
    by (simp_all add: ex_result_def)
  show ?thesis
    using ex_world_args ex_run s[unfolded w'] e v by simp
qed

text \<open>
  C2. A kind identifier that is not a key of its factory registry is skipped in
  silence: the hook returns nil, the process-wide default of that kind keeps the
  value it had, and no factory of that kind is called. This holds for each of the
  four kinds on its own, whatever the other flags are, and the hook returns nil on
  every context. The process argument list is assumed to hold the program name.
\<close>

theorem unregistered_kind_is_skipped:
  assumes "os_Args w \<noteq> []"
  shows "\<exists>w'. Before pk c ctx w = Inr (None, w') \<and>
     (ctx_String ctx ''broker'' \<notin> dom (Brokers (opts c)) \<longrightarrow>
        broker_DefaultBroker w' = broker_DefaultBroker w \<and>
        filter is_Ev_Broker (new_events w w') = []) \<and>
     (ctx_String ctx ''registry'' \<notin> dom (Registries (opts c)) \<longrightarrow>
        registry_DefaultRegistry w' = registry_DefaultRegistry w \<and>
        filter is_Ev_Registry (new_events w w') = []) \<and>
     (ctx_String ctx ''selector'' \<notin> dom (Selectors (opts c)) \<longrightarrow>
        selector_DefaultSelector w' = selector_DefaultSelector w \<and>
        filter is_Ev_Selector (new_events w w') = []) \<and>
     (ctx_String ctx ''transport'' \<notin> dom (Transports (opts c)) \<longrightarrow>
        transport_DefaultTransport w' = transport_DefaultTransport w \<and>
        filter is_Ev_Transport (new_events w w') = [])"
proof (intro exI[of _ "result_world pk c ctx w"] conjI impI)
  show "Before pk c ctx w = Inr (None, result_world pk c ctx w)"
    by (rule Before_result[OF assms])
next
  assume "ctx_String ctx ''broker'' \<notin> dom (Brokers (opts c))"
  then have n: "Brokers (opts c) (ctx_String ctx ''broker'') = None" by (simp add: domIff)
  show "broker_DefaultBroker (result_world pk c ctx w) = broker_DefaultBroker w"
    by (simp add: result_fields(1)[OF assms] n)
  show "filter is_Ev_Broker (new_events w (result_world pk c ctx w)) = []"
    by (simp add: result_events_by_kind(1)[OF assms] n)
next
  assume "ctx_String ctx ''registry'' \<notin> dom (Registries (opts c))"
  then have n: "Registries (opts c) (ctx_String ctx ''registry'') = None" by (simp add: domIff)
  show "registry_DefaultRegistry (result_world pk c ctx w) = registry_DefaultRegistry w"
    by (simp add: result_fields(2)[OF assms] n)
  show "filter is_Ev_Registry (new_events w (result_world pk c ctx w)) = []"
    by (simp add: result_events_by_kind(2)[OF assms] n)
next
  assume "ctx_String ctx ''selector'' \<notin> dom (Selectors (opts c))"
  then have n: "Selectors (opts c) (ctx_String ctx ''selector'') = None" by (simp add: domIff)
  show "selector_DefaultSelector (result_world pk c ctx w) = selector_DefaultSelector w"
    by (simp add: result_fields(3)[OF assms] n)
  show "filter is_Ev_Selector (new_events w (result_world pk c ctx w)) = []"
    by (simp add: result_events_by_kind(3)[OF assms] n)
next
  assume "ctx_String ctx ''transport'' \<notin> dom (Transports (opts c))"
  then have n: "Transports (opts c) (ctx_String ctx ''transport'') = None" by (simp add: domIff)
  show "transport_DefaultTransport (result_world pk c ctx w) = transport_DefaultTransport w"
    by (simp add: result_fields(4)[OF assms] n)
  show "filter is_Ev_Transport (new_events w (result_world pk c ctx w)) = []"
    by (simp add: result_events_by_kind(4)[OF assms] n)
qed

theorem unregistered_kind_is_skipped_witness:
  "os_Args ex_world \<noteq> [] \<and>
   ''kafka'' \<notin> dom (Brokers (opts ex_cmd)) \<and>
   ''zookeeper'' \<notin> dom (Registries (opts ex_cmd)) \<and>
   ''roundrobin'' \<notin> dom (Selectors (opts ex_cmd)) \<and>
   ''grpc'' \<notin> dom (Transports (opts ex_cmd)) \<and>
   Before ex_packages ex_cmd unknown_ctx ex_world = Inr (None, unknown_result) \<and>
   broker_DefaultBroker unknown_result = broker_DefaultBroker ex_world \<and>
   filter is_Ev_Broker (new_events ex_world unknown_result) = [] \<and>
   registry_DefaultRegistry unknown_result = registry_DefaultRegistry ex_world \<and>
   filter is_Ev_Registry (new_events ex_world unknown_result) = [] \<and>
   selector_DefaultSelector unknown_result = selector_DefaultSelector ex_world \<and>
   filter is_Ev_Selector (new_events ex_world unknown_result) = [] \<and>
   transport_DefaultTransport unknown_result = transport_DefaultTransport ex_world \<and>
   filter is_Ev_Transport (new_events ex_world unknown_result) = []"
proof -
  have k: "''kafka'' \<notin> dom (Brokers (opts ex_cmd))"
    "''zookeeper'' \<notin> dom (Registries (opts ex_cmd))"
    "''roundrobin'' \<notin> dom (Selectors (opts ex_cmd))"
    "''grpc'' \<notin> dom (Transports (opts ex_cmd))"
    by (simp_all add: builtin_tables builtin_keys)
  from unregistered_kind_is_skipped[OF ex_world_args, of ex_packages ex_cmd
      unknown_ctx]
  show ?thesis
    using k ex_world_args by (simp add: unknown_run unknown_kinds)
qed

text \<open>
  C3. A kind identifier that is a key of its factory registry selects the factory
  stored under that key: in one run the hook calls a factory of that kind once, under
  that key, with the address flag cut at its commas (the selector factory with the
  one option that wraps the default registry), and the process-wide default of that
  kind becomes what that factory returned, whatever it held before. This holds for
  each of the four kinds on its own. The process argument list is assumed to hold
  the program name.
\<close>

theorem registered_kind_is_published:
  assumes "os_Args w \<noteq> []"
  shows "\<exists>w'. Before pk c ctx w = Inr (None, w') \<and>
     (\<forall>b. Brokers (opts c) (ctx_String ctx ''broker'') = Some b \<longrightarrow>
        broker_DefaultBroker w' =
          b (strings_Split (ctx_String ctx ''broker_address'') CHR '','') [] \<and>
        filter is_Ev_Broker (new_events w w') =
          [Ev_Broker (ctx_String ctx ''broker'')
             (strings_Split (ctx_String ctx ''broker_address'') CHR '','')]) \<and>
     (\<forall>r. Registries (opts c) (ctx_String ctx ''registry'') = Some r \<longrightarrow>
        registry_DefaultRegistry w' =
          r (strings_Split (ctx_String ctx ''registry_address'') CHR '','') [] \<and>
        filter is_Ev_Registry (new_events w w') =
          [Ev_Registry (ctx_String ctx ''registry'')
             (strings_Split (ctx_String ctx ''registry_address'') CHR '','')]) \<and>
     (\<forall>s. Selectors (opts c) (ctx_String ctx ''selector'') = Some s \<longrightarrow>
        selector_DefaultSelector w' = s [selector_Registry (registry_DefaultRegistry w')] \<and>
        filter is_Ev_Selector (new_events w w') =
          [Ev_Selector (ctx_String ctx ''selector'')
             [selector_Registry (registry_DefaultRegistry w')]]) \<and>
     (\<forall>t. Transports (opts c) (ctx_String ctx ''transport'') = Some t \<longrightarrow>
        transport_DefaultTransport w' =
          t (strings_Split (ctx_String ctx ''transport_address'') CHR '','') [] \<and>
        filter is_Ev_Transport (new_events w w') =
          [Ev_Transport (ctx_String ctx ''transport'')
             (strings_Split (ctx_String ctx ''transport_address'') CHR '','')])"
proof (intro exI[of _ "result_world pk c ctx w"] conjI impI allI)
  show "Before pk c ctx w = Inr (None, result_world pk c ctx w)"
    by (rule Before_result[OF assms])
next
  fix b assume s: "Brokers (opts c) (ctx_String ctx ''broker'') = Some b"
  show "broker_DefaultBroker (result_world pk c ctx w) =
          b (strings_Split (ctx_String ctx ''broker_address'') CHR '','') []"
    by (simp add: result_fields(1)[OF assms] s)
  show "filter is_Ev_Broker (new_events w (result_world pk c ctx w)) =
          [Ev_Broker (ctx_String ctx ''broker'')
             (strings_Split (ctx_String ctx ''broker_address'') CHR '','')]"
    by (simp add: result_events_by_kind(1)[OF assms] s)
next
  fix r assume s: "Registries (opts c) (ctx_String ctx ''registry'') = Some r"
  show "registry_DefaultRegistry (result_world pk c ctx w) =
          r (strings_Split (ctx_String ctx ''registry_address'') CHR '','') []"
    by (simp add: result_fields(2)[OF assms] s)
  show "filter is_Ev_Registry (new_events w (result_world pk c ctx w)) =
          [Ev_Registry (ctx_String ctx ''registry'')
             (strings_Split (ctx_String ctx ''registry_address'') CHR '','')]"
    by (simp add: result_events_by_kind(2)[OF assms] s)
next
  fix sf assume s: "Selectors (opts c) (ctx_String ctx ''selector'') = Some sf"
  show "selector_DefaultSelector (result_world pk c ctx w) =
          sf [selector_Registry (registry_DefaultRegistry (result_world pk c ctx w))]"
    by (simp only: result_fields(3)[OF assms, of pk c ctx] s option.case)
  show "filter is_Ev_Selector (new_events w (result_world pk c ctx w)) =
          [Ev_Selector (ctx_String ctx ''selector'')
             [selector_Registry (registry_DefaultRegistry (result_world pk c ctx w))]]"
    by (simp only: result_events_by_kind(3)[OF assms, of pk c ctx] s option.case)
next
  fix t assume s: "Transports (opts c) (ctx_String ctx ''transport'') = Some t"
  show "transport_DefaultTransport (result_world pk c ctx w) =
          t (strings_Split (ctx_String ctx ''transport_address'') CHR '','') []"
    by (simp add: result_fields(4)[OF assms] s)
  show "filter is_Ev_Transport (new_events w (result_world pk c ctx w)) =
          [Ev_Transport (ctx_String ctx ''transport'')
             (strings_Split (ctx_String ctx ''transport_address'') CHR '','')]"
    by (simp add: result_events_by_kind(4)[OF assms] s)
qed

theorem registered_kind_is_published_witness:
  "os_Args ex_world \<noteq> [] \<and>
   Brokers (opts ex_cmd) ''http'' = Some (broker_NewBroker ex_packages) \<and>
   Registries (opts ex_cmd) ''consul'' = Some (registry_NewRegistry ex_packages) \<and>
   Selectors (opts ex_cmd) ''random'' = Some (selector_NewSelector ex_packages) \<and>
   Transports (opts ex_cmd) ''http'' = Some (transport_NewTransport ex_packages) \<and>
   Before ex_packages ex_cmd ex_ctx ex_world = Inr (None, ex_result) \<and>
   broker_DefaultBroker ex_result =
     broker_NewBroker ex_packages [''10.0.0.1:4222'', ''10.0.0.2:4222''] [] \<and>
   filter is_Ev_Broker (new_events ex_world ex_result) =
     [Ev_Broker ''http'' [''10.0.0.1:4222'', ''10.0.0.2:4222'']] \<and>
   registry_DefaultRegistry ex_result = registry_NewRegistry ex_packages [''''] [] \<and>
   filter is_Ev_Registry (new_events ex_world ex_result) = [Ev_Registry ''consul'' ['''']] \<and>
   selector_DefaultSelector ex_result =
     selector_NewSelector ex_packages [selector_Registry (registry_DefaultRegistry ex_result)] \<and>
   filter is_Ev_Selector (new_events ex_world ex_result) =
     [Ev_Selector ''random'' [selector_Registry (registry_DefaultRegistry ex_result)]] \<and>
   transport_DefaultTransport ex_result = transport_NewTransport ex_packages [''''] [] \<and>
   filter is_Ev_Transport (new_events ex_world ex_result) = [Ev_Transport ''http'' ['''']] \<and>
   broker_DefaultBroker ex_world = [''old broker''] \<and>
   broker_DefaultBroker ex_result = [''broker'', ''10.0.0.1:4222'', ''10.0.0.2:4222'']"
proof -
  have k: "Brokers (opts ex_cmd) ''http'' = Some (broker_NewBroker ex_packages)"
    "Registries (opts ex_cmd) ''consul'' = Some (registry_NewRegistry ex_packages)"
    "Selectors (opts ex_cmd) ''random'' = Some (selector_NewSelector ex_packages)"
    "Transports (opts ex_cmd) ''http'' = Some (transport_NewTransport ex_packages)"
    by (simp_all add: builtin_tables builtin_entries)
  have v: "broker_DefaultBroker ex_world = [''old broker'']"
    "broker_DefaultBroker ex_result = [''broker'', ''10.0.0.1:4222'', ''10.0.0.2:4222'']"
    by (simp_all add: ex_world_def ex_result_def)
  from registered_kind_is_published[OF ex_world_args, of ex_packages ex_cmd ex_ctx]
  have "broker_DefaultBroker ex_result =
     broker_NewBroker ex_packages [''10.0.0.1:4222'', ''10.0.0.2:4222''] [] \<and>
   filter is_Ev_Broker (new_events ex_world ex_result) =
     [Ev_Broker ''http'' [''10.0.0.1:4222'', ''10.0.0.2:4222'']] \<and>
   registry_DefaultRegistry ex_result = registry_NewRegistry ex_packages [''''] [] \<and>
   filter is_Ev_Registry (new_events ex_world ex_result) = [Ev_Registry ''consul'' ['''']] \<and>
   selector_DefaultSelector ex_result =
     selector_NewSelector ex_packages [selector_Registry (registry_DefaultRegistry ex_result)] \<and>
   filter is_Ev_Selector (new_events ex_world ex_result) =
     [Ev_Selector ''random'' [selector_Registry (registry_DefaultRegistry ex_result)]] \<and>
   transport_DefaultTransport ex_result = transport_NewTransport ex_packages [''''] [] \<and>
   filter is_Ev_Transport (new_events ex_world ex_result) = [Ev_Transport ''http'' ['''']]"
    by (simp only: ex_run ex_strings k ex_splits) simp
  then show ?thesis
    using k v ex_world_args ex_run by simp
qed

text \<open>
  C4. Every run of the hook that returns has returned nil and has built and
  published a server and a client: the default server is what
  \<^verbatim>\<open>server.NewServer\<close> returns for the six options name, version, id, address,
  advertise and metadata, read from the flags of those names, the metadata option
  holding the map the metadata loop assembles; the default client is what
  \<^verbatim>\<open>client.NewClient\<close> returns for no options. Each constructor is called once.
  Nothing is assumed about the four kind identifiers.
\<close>

theorem server_and_client_always_built:
  fixes w :: "('b, 'r, 's, 't, 'srv, 'cl) world"
  assumes "Before pk c ctx w = Inr (r, w')"
  shows "r = None \<and>
     (\<exists>m. (\<forall>w5 :: ('b, 'r, 's, 't, 'srv, 'cl) world. \<exists>w6. Before_metadata ctx w5 = Inr (m, w6)) \<and>
        server_DefaultServer w' =
          server_NewServer pk
            [server_Name (ctx_String ctx ''server_name''),
             server_Version (ctx_String ctx ''server_version''),
             server_Id (ctx_String ctx ''server_id''),
             server_Address (ctx_String ctx ''server_address''),
             server_Advertise (ctx_String ctx ''server_advertise''),
             server_Metadata m] \<and>
        filter is_Ev_NewServer (new_events w w') =
          [Ev_NewServer
            [server_Name (ctx_String ctx ''server_name''),
             server_Version (ctx_String ctx ''server_version''),
             server_Id (ctx_String ctx ''server_id''),
             server_Address (ctx_String ctx ''server_address''),
             server_Advertise (ctx_String ctx ''server_advertise''),
             server_Metadata m]]) \<and>
     client_DefaultClient w' = client_NewClient pk [] \<and>
     filter is_Ev_NewClient (new_events w w') = [Ev_NewClient]"
proof -
  note ret = Before_returns_only_nil[OF assms]
  have m: "\<exists>w6. Before_metadata ctx w5 = Inr (metadata_of (ctx_StringSlice ctx ''server_metadata''), w6)"
    for w5 :: "('b, 'r, 's, 't, 'srv, 'cl) world"
    by (simp add: Before_metadata_eq)
  show ?thesis
    apply (intro conjI ret(2))
    subgoal
      apply (rule exI[of _ "metadata_of (ctx_StringSlice ctx ''server_metadata'')"])
      apply (intro conjI allI m)
      subgoal unfolding ret(3) by (rule result_fields(5)[OF ret(1)])
      subgoal unfolding ret(3) by (rule result_events_by_kind(5)[OF ret(1)])
      done
    subgoal unfolding ret(3) by (rule result_fields(6)[OF ret(1)])
    subgoal unfolding ret(3) by (rule result_events_by_kind(6)[OF ret(1)])
    done
qed

theorem server_and_client_always_built_witness:
  "Before ex_packages ex_cmd unknown_ctx ex_world = Inr (None, unknown_result) \<and>
   Before_metadata unknown_ctx ex_world = Inr (Map.empty, emit Ev_make_map ex_world) \<and>
   server_DefaultServer unknown_result =
     server_NewServer ex_packages
       [server_Name ''svc.example'', server_Version '''', server_Id '''',
        server_Address '':0'', server_Advertise '''', server_Metadata Map.empty] \<and>
   filter is_Ev_NewServer (new_events ex_world unknown_result) =
     [Ev_NewServer
       [server_Name ''svc.example'', server_Version '''', server_Id '''',
        server_Address '':0'', server_Advertise '''', server_Metadata Map.empty]] \<and>
   client_DefaultClient unknown_result = client_NewClient ex_packages [] \<and>
   filter is_Ev_NewClient (new_events ex_world unknown_result) = [Ev_NewClient] \<and>
   filter is_Ev_Broker (new_events ex_world unknown_result) = [] \<and>
   filter is_Ev_Registry (new_events ex_world unknown_result) = [] \<and>
   filter is_Ev_Selector (new_events ex_world unknown_result) = [] \<and>
   filter is_Ev_Transport (new_events ex_world unknown_result) = []"
proof -
  have md: "Before_metadata unknown_ctx ex_world = Inr (Map.empty, emit Ev_make_map ex_world)"
    by (simp add: Before_metadata_def unknown_strings)
  from server_and_client_always_built[OF unknown_run]
  obtain m where m: "\<And>w5 :: (string list, string list, string list selector_Option list,
        string list, server_Option list, nat) world.
          \<exists>w6. Before_metadata unknown_ctx w5 = Inr (m, w6)"
    and f: "server_DefaultServer unknown_result =
          server_NewServer ex_packages
            [server_Name (ctx_String unknown_ctx ''server_name''),
             server_Version (ctx_String unknown_ctx ''server_version''),
             server_Id (ctx_String unknown_ctx ''server_id''),
             server_Address (ctx_String unknown_ctx ''server_address''),
             server_Advertise (ctx_String unknown_ctx ''server_advertise''),
             server_Metadata m]"
        "filter is_Ev_NewServer (new_events ex_world unknown_result) =
          [Ev_NewServer
            [server_Name (ctx_String unknown_ctx ''server_name''),
             server_Version (ctx_String unknown_ctx ''server_version''),
             server_Id (ctx_String unknown_ctx ''server_id''),
             server_Address (ctx_String unknown_ctx ''server_address''),
             server_Advertise (ctx_String unknown_ctx ''server_advertise''),
             server_Metadata m]]"
        "client_DefaultClient unknown_result = client_NewClient ex_packages []"
        "filter is_Ev_NewClient (new_events ex_world unknown_result) = [Ev_NewClient]"
    by blast
  have me: "m = Map.empty" using m[of ex_world] md by simp
  have none: "filter is_Ev_Broker (new_events ex_world unknown_result) = []"
    "filter is_Ev_Registry (new_events ex_world unknown_result) = []"
    "filter is_Ev_Selector (new_events ex_world unknown_result) = []"
    "filter is_Ev_Transport (new_events ex_world unknown_result) = []"
    by (simp_all add: new_events_def unknown_result_def ex_world_def ex_logging_def)
  show ?thesis
    using unknown_run md f[unfolded me unknown_strings] none by simp
qed

text \<open>
  C5. The metadata loop never fails, and the map it assembles from the
  \<^verbatim>\<open>server_metadata\<close> tokens holds, under each key, the value of the last token with
  that key, and nothing under a key that no token has. The key of a token is its text
  before the first \<^verbatim>\<open>=\<close>; its value is everything after the first \<^verbatim>\<open>=\<close> (further
  \<^verbatim>\<open>=\<close> included), and the empty string when the token has no \<^verbatim>\<open>=\<close>, in which
  case the key is the whole token. What the loop computes with \<^verbatim>\<open>strings.Split\<close> and
  \<^verbatim>\<open>strings.Join\<close> is exactly this key and this value.
\<close>

theorem metadata_map_of_tokens:
  "\<exists>m w'. Before_metadata ctx w = Inr (m, w') \<and>
     (\<forall>k. m k =
        (case filter (\<lambda>d. metadata_key d = k) (rev (ctx_StringSlice ctx ''server_metadata'')) of
           [] \<Rightarrow> None
         | d # older \<Rightarrow> Some (metadata_value d))) \<and>
     (\<forall>d. hd (strings_Split d CHR ''='') = metadata_key d \<and>
          (if length (strings_Split d CHR ''='') > 1
           then strings_Join (tl (strings_Split d CHR ''='')) ''='' else []) = metadata_value d \<and>
          (if CHR ''='' \<in> set d
           then d = metadata_key d @ ''='' @ metadata_value d
           else metadata_key d = d \<and> metadata_value d = []))"
proof -
  have kv: "(if CHR ''='' \<in> set d
           then d = metadata_key d @ ''='' @ metadata_value d
           else metadata_key d = d \<and> metadata_value d = [])" for d
  proof (cases "CHR ''='' \<in> set d")
    case True
    then show ?thesis
      using cut_at_first[OF True] by (simp add: metadata_key_def metadata_value_def)
  next
    case False
    then have "takeWhile (\<lambda>c. c \<noteq> CHR ''='') d = d"
      by (intro takeWhile_eq_all_conv[THEN iffD2]) auto
    with False show ?thesis by (simp add: metadata_key_def metadata_value_def)
  qed
  have look: "metadata_of ds k =
        (case filter (\<lambda>d. metadata_key d = k) (rev ds) of
           [] \<Rightarrow> None
         | d # older \<Rightarrow> Some (metadata_value d))" for ds k
    unfolding metadata_of_def by (simp add: foldl_upd_lookup)
  have h: "hd (strings_Split d CHR ''='') = metadata_key d" for d
    by (simp add: hd_strings_Split metadata_key_def)
  show ?thesis
    by (intro exI conjI allI) (rule Before_metadata_eq look kv h Join_tl_Split)+
qed

theorem metadata_map_of_tokens_witness:
  "\<exists>m w'. Before_metadata tokens_ctx ex_world = Inr (m, w') \<and>
     m ''version'' = Some ''1.0.0'' \<and>
     m ''env'' = Some ''dev'' \<and>
     m ''a'' = Some ''b=c'' \<and>
     m ''bare'' = Some '''' \<and>
     m '''' = Some ''x'' \<and>
     m ''prod'' = None \<and>
     strings_Split ''a=b=c'' CHR ''='' = [''a'', ''b'', ''c''] \<and>
     strings_Join [''b'', ''c''] ''='' = ''b=c'' \<and>
     strings_Split ''bare'' CHR ''='' = [''bare'']"
proof -
  have t: "ctx_StringSlice tokens_ctx ''server_metadata'' =
      [''version=1.0.0'', ''env=prod'', ''a=b=c'', ''bare'', ''env=dev'', ''=x'']"
    by (simp add: tokens_ctx_def supplied_def)
  from metadata_map_of_tokens[of tokens_ctx ex_world]
  obtain m w' where run: "Before_metadata tokens_ctx ex_world = Inr (m, w')"
    and look: "\<And>k. m k =
        (case filter (\<lambda>d. metadata_key d = k) (rev (ctx_StringSlice tokens_ctx ''server_metadata'')) of
           [] \<Rightarrow> None
         | d # older \<Rightarrow> Some (metadata_value d))"
    by blast
  have "m ''version'' = Some ''1.0.0''" "m ''env'' = Some ''dev''" "m ''a'' = Some ''b=c''"
    "m ''bare'' = Some ''''" "m '''' = Some ''x''" "m ''prod'' = None"
    by (simp_all add: look t metadata_key_def metadata_value_def)
  moreover have "strings_Split ''a=b=c'' CHR ''='' = [''a'', ''b'', ''c'']"
    "strings_Join [''b'', ''c''] ''='' = ''b=c''"
    "strings_Split ''bare'' CHR ''='' = [''bare'']"
    by (simp_all add: strings_Split.simps)
  ultimately show ?thesis using run by blast
qed

text \<open>
  C6. The address list a factory receives is the flag value cut at every comma and
  nothing else: the hook hands \<^verbatim>\<open>strings.Split(flag, ",")\<close> to the broker, registry and
  transport factories; that list has one element more than the flag value has commas,
  joining it with commas gives the flag value back byte for byte, and any list of
  comma-free segments (empty ones and repeated ones included) is what its joined text
  splits into. The process argument list is assumed to hold the program name.
\<close>

theorem address_list_is_comma_split:
  assumes "os_Args w \<noteq> []"
  shows "\<exists>w'. Before pk c ctx w = Inr (None, w') \<and>
     (\<forall>k addrs. Ev_Broker k addrs \<in> set (new_events w w') \<longrightarrow>
         addrs = strings_Split (ctx_String ctx ''broker_address'') CHR '','' \<and>
         length addrs = count_list (ctx_String ctx ''broker_address'') CHR '','' + 1 \<and>
         strings_Join addrs '','' = ctx_String ctx ''broker_address'') \<and>
     (\<forall>k addrs. Ev_Registry k addrs \<in> set (new_events w w') \<longrightarrow>
         addrs = strings_Split (ctx_String ctx ''registry_address'') CHR '','' \<and>
         length addrs = count_list (ctx_String ctx ''registry_address'') CHR '','' + 1 \<and>
         strings_Join addrs '','' = ctx_String ctx ''registry_address'') \<and>
     (\<forall>k addrs. Ev_Transport k addrs \<in> set (new_events w w') \<longrightarrow>
         addrs = strings_Split (ctx_String ctx ''transport_address'') CHR '','' \<and>
         length addrs = count_list (ctx_String ctx ''transport_address'') CHR '','' + 1 \<and>
         strings_Join addrs '','' = ctx_String ctx ''transport_address'') \<and>
     (\<forall>ps. ps \<noteq> [] \<and> (\<forall>p \<in> set ps. CHR '','' \<notin> set p) \<longrightarrow>
         strings_Split (strings_Join ps '','') CHR '','' = ps)"
proof -
  obtain w' where run: "Before pk c ctx w = Inr (None, w')"
    and ne: "new_events w w' =
       logging_events ctx
       @ (case Brokers (opts c) (ctx_String ctx ''broker'') of
            None \<Rightarrow> []
          | Some b \<Rightarrow> [Ev_Broker (ctx_String ctx ''broker'')
                         (strings_Split (ctx_String ctx ''broker_address'') CHR '','')])
       @ (case Registries (opts c) (ctx_String ctx ''registry'') of
            None \<Rightarrow> []
          | Some r \<Rightarrow> [Ev_Registry (ctx_String ctx ''registry'')
                         (strings_Split (ctx_String ctx ''registry_address'') CHR '','')])
       @ (case Selectors (opts c) (ctx_String ctx ''selector'') of
            None \<Rightarrow> []
          | Some s \<Rightarrow> [Ev_Selector (ctx_String ctx ''selector'')
                         [selector_Registry (registry_DefaultRegistry w')]])
       @ (case Transports (opts c) (ctx_String ctx ''transport'') of
            None \<Rightarrow> []
          | Some t \<Rightarrow> [Ev_Transport (ctx_String ctx ''transport'')
                         (strings_Split (ctx_String ctx ''transport_address'') CHR '','')])
       @ Ev_make_map
       # map (\<lambda>d. Ev_map_assign (metadata_key d) (metadata_value d))
           (ctx_StringSlice ctx ''server_metadata'')
       @ [Ev_NewServer
            [server_Name (ctx_String ctx ''server_name''),
             server_Version (ctx_String ctx ''server_version''),
             server_Id (ctx_String ctx ''server_id''),
             server_Address (ctx_String ctx ''server_address''),
             server_Advertise (ctx_String ctx ''server_advertise''),
             server_Metadata (metadata_of (ctx_StringSlice ctx ''server_metadata''))],
          Ev_NewClient]"
    by (rule Before_run[OF assms, of pk c ctx])
  have b: "addrs = strings_Split (ctx_String ctx ''broker_address'') CHR '','' \<and>
         length addrs = count_list (ctx_String ctx ''broker_address'') CHR '','' + 1 \<and>
         strings_Join addrs '','' = ctx_String ctx ''broker_address''"
    if "Ev_Broker k addrs \<in> set (new_events w w')" for k addrs
  proof -
    have "addrs = strings_Split (ctx_String ctx ''broker_address'') CHR '',''"
      using that unfolding ne
      by (auto simp: logging_events_def split: option.splits)
    then show ?thesis
      by (simp add: length_strings_Split strings_Join_Split)
  qed
  have r: "addrs = strings_Split (ctx_String ctx ''registry_address'') CHR '','' \<and>
         length addrs = count_list (ctx_String ctx ''registry_address'') CHR '','' + 1 \<and>
         strings_Join addrs '','' = ctx_String ctx ''registry_address''"
    if "Ev_Registry k addrs \<in> set (new_events w w')" for k addrs
  proof -
    have "addrs = strings_Split (ctx_String ctx ''registry_address'') CHR '',''"
      using that unfolding ne
      by (auto simp: logging_events_def split: option.splits)
    then show ?thesis
      by (simp add: length_strings_Split strings_Join_Split)
  qed
  have t: "addrs = strings_Split (ctx_String ctx ''transport_address'') CHR '','' \<and>
         length addrs = count_list (ctx_String ctx ''transport_address'') CHR '','' + 1 \<and>
         strings_Join addrs '','' = ctx_String ctx ''transport_address''"
    if "Ev_Transport k addrs \<in> set (new_events w w')" for k addrs
  proof -
    have "addrs = strings_Split (ctx_String ctx ''transport_address'') CHR '',''"
      using that unfolding ne
      by (auto simp: logging_events_def split: option.splits)
    then show ?thesis
      by (simp add: length_strings_Split strings_Join_Split)
  qed
  have u: "strings_Split (strings_Join ps '','') CHR '','' = ps"
    if "ps \<noteq> [] \<and> (\<forall>p \<in> set ps. CHR '','' \<notin> set p)" for ps
    using that strings_Split_unique[of ps "CHR '',''"] by simp
  show ?thesis
    using run b r t u by blast
qed

theorem address_list_is_comma_split_witness:
  "os_Args ex_world \<noteq> [] \<and>
   Before ex_packages ex_cmd commas_ctx ex_world = Inr (None, commas_result) \<and>
   Ev_Broker ''http'' [''a'', '''', ''b'', ''''] \<in> set (new_events ex_world commas_result) \<and>
   [''a'', '''', ''b'', ''''] = strings_Split ''a,,b,'' CHR '','' \<and>
   length [''a'', '''', ''b'', ''''] = count_list ''a,,b,'' CHR '','' + 1 \<and>
   strings_Join [''a'', '''', ''b'', ''''] '','' = ''a,,b,'' \<and>
   Ev_Registry ''consul'' ['''', ''''] \<in> set (new_events ex_world commas_result) \<and>
   ['''', ''''] = strings_Split '','' CHR '','' \<and>
   length (['''', ''''] :: string list) = count_list '','' CHR '','' + 1 \<and>
   strings_Join ['''', ''''] '','' = '','' \<and>
   Ev_Transport ''http'' ['' x '', ''x'', ''x''] \<in> set (new_events ex_world commas_result) \<and>
   ['' x '', ''x'', ''x''] = strings_Split '' x ,x,x'' CHR '','' \<and>
   length ['' x '', ''x'', ''x''] = count_list '' x ,x,x'' CHR '','' + 1 \<and>
   strings_Join ['' x '', ''x'', ''x''] '','' = '' x ,x,x'' \<and>
   strings_Split (strings_Join [''a'', '''', '''', ''a''] '','') CHR '','' = [''a'', '''', '''', ''a'']"
proof -
  from address_list_is_comma_split[OF ex_world_args, of ex_packages ex_cmd commas_ctx]
  obtain w' where run: "Before ex_packages ex_cmd commas_ctx ex_world = Inr (None, w')"
    and b: "\<And>k addrs. Ev_Broker k addrs \<in> set (new_events ex_world w') \<Longrightarrow>
         addrs = strings_Split (ctx_String commas_ctx ''broker_address'') CHR '','' \<and>
         length addrs = count_list (ctx_String commas_ctx ''broker_address'') CHR '','' + 1 \<and>
         strings_Join addrs '','' = ctx_String commas_ctx ''broker_address''"
    and r: "\<And>k addrs. Ev_Registry k addrs \<in> set (new_events ex_world w') \<Longrightarrow>
         addrs = strings_Split (ctx_String commas_ctx ''registry_address'') CHR '','' \<and>
         length addrs = count_list (ctx_String commas_ctx ''registry_address'') CHR '','' + 1 \<and>
         strings_Join addrs '','' = ctx_String commas_ctx ''registry_address''"
    and t: "\<And>k addrs. Ev_Transport k addrs \<in> set (new_events ex_world w') \<Longrightarrow>
         addrs = strings_Split (ctx_String commas_ctx ''transport_address'') CHR '','' \<and>
         length addrs = count_list (ctx_String commas_ctx ''transport_address'') CHR '','' + 1 \<and>
         strings_Join addrs '','' = ctx_String commas_ctx ''transport_address''"
    and u: "\<And>ps. ps \<noteq> [] \<and> (\<forall>p \<in> set ps. CHR '','' \<notin> set p) \<Longrightarrow>
         strings_Split (strings_Join ps '','') CHR '','' = ps"
    by blast
  have w': "w' = commas_result" using run commas_run by simp
  have mb: "Ev_Broker ''http'' [''a'', '''', ''b'', ''''] \<in> set (new_events ex_world commas_result)"
    and mr: "Ev_Registry ''consul'' ['''', ''''] \<in> set (new_events ex_world commas_result)"
    and mt: "Ev_Transport ''http'' ['' x '', ''x'', ''x''] \<in> set (new_events ex_world commas_result)"
    by (simp_all add: commas_events)
  have seg: "[''a'', '''', '''', ''a''] \<noteq> [] \<and> (\<forall>p \<in> set [''a'', '''', '''', ''a'']. CHR '','' \<notin> set p)"
    by simp
  show ?thesis
    using ex_world_args commas_run mb mr mt
      b[of "''http''" "[''a'', '''', ''b'', '''']", unfolded w' commas_strings, OF mb]
      r[of "''consul''" "['''', '''']", unfolded w' commas_strings, OF mr]
      t[of "''http''" "['' x '', ''x'', ''x'']", unfolded w' commas_strings, OF mt]
      u[OF seg]
    apply (elim conjE)
    apply (intro conjI)
    apply assumption+
    done
qed




text \<open>
  C8. The flag table declares the defaults \<^verbatim>\<open>http\<close> for \<^verbatim>\<open>broker\<close>,
  \<^verbatim>\<open>consul\<close> for \<^verbatim>\<open>registry\<close>, \<^verbatim>\<open>selector\<close> for \<^verbatim>\<open>selector\<close> and \<^verbatim>\<open>http\<close> for
  \<^verbatim>\<open>transport\<close>. The default of \<^verbatim>\<open>registry\<close> is the key of the built-in registry
  table, so on a command with that table and a context in which the registry flag
  reads as its declared default (the flag was not given), the hook returns nil, calls
  \<^verbatim>\<open>registry.NewRegistry\<close> once with the split registry address, and publishes what
  it returns as the default registry. The process argument list is assumed to hold
  the program name.
\<close>

theorem registry_default_resolves:
  assumes "os_Args w \<noteq> []"
    and "Registries (opts c) = DefaultRegistries pk"
    and "StringFlag_Value DefaultFlags ''registry'' = Some (ctx_String ctx ''registry'')"
  shows "StringFlag_Value DefaultFlags ''broker'' = Some ''http'' \<and>
     StringFlag_Value DefaultFlags ''registry'' = Some ''consul'' \<and>
     StringFlag_Value DefaultFlags ''selector'' = Some ''selector'' \<and>
     StringFlag_Value DefaultFlags ''transport'' = Some ''http'' \<and>
     ctx_String ctx ''registry'' \<in> dom (DefaultRegistries pk) \<and>
     (\<exists>w'. Before pk c ctx w = Inr (None, w') \<and>
        registry_DefaultRegistry w' =
          registry_NewRegistry pk
            (strings_Split (ctx_String ctx ''registry_address'') CHR '','') [] \<and>
        filter is_Ev_Registry (new_events w w') =
          [Ev_Registry ''consul''
             (strings_Split (ctx_String ctx ''registry_address'') CHR '','')])"
proof -
  have d: "StringFlag_Value DefaultFlags ''broker'' = Some ''http''"
    "StringFlag_Value DefaultFlags ''registry'' = Some ''consul''"
    "StringFlag_Value DefaultFlags ''selector'' = Some ''selector''"
    "StringFlag_Value DefaultFlags ''transport'' = Some ''http''"
    by (simp_all add: DefaultFlags_def)
  have k: "ctx_String ctx ''registry'' = ''consul''"
    using assms(3) d(2) by simp
  have r: "Registries (opts c) (ctx_String ctx ''registry'') = Some (registry_NewRegistry pk)"
    by (simp only: assms(2) k builtin_entries)
  have "Before pk c ctx w = Inr (None, result_world pk c ctx w)"
    by (rule Before_result[OF assms(1)])
  moreover have "registry_DefaultRegistry (result_world pk c ctx w) =
          registry_NewRegistry pk
            (strings_Split (ctx_String ctx ''registry_address'') CHR '','') []"
    by (simp only: result_fields(2)[OF assms(1)] r option.case)
  moreover have "filter is_Ev_Registry (new_events w (result_world pk c ctx w)) =
          [Ev_Registry ''consul''
             (strings_Split (ctx_String ctx ''registry_address'') CHR '','')]"
    by (simp only: result_events_by_kind(2)[OF assms(1)] r option.case)
       (simp only: k)
  moreover have "ctx_String ctx ''registry'' \<in> dom (DefaultRegistries pk)"
    by (simp add: k builtin_keys)
  ultimately show ?thesis using d by blast
qed

theorem registry_default_resolves_witness:
  "os_Args ex_world \<noteq> [] \<and>
   Registries (opts ex_cmd) = DefaultRegistries ex_packages \<and>
   StringFlag_Value DefaultFlags ''registry'' = Some (ctx_String defaults_ctx ''registry'') \<and>
   Before ex_packages ex_cmd defaults_ctx ex_world = Inr (None, defaults_result) \<and>
   registry_DefaultRegistry defaults_result = registry_NewRegistry ex_packages [''''] [] \<and>
   filter is_Ev_Registry (new_events ex_world defaults_result) = [Ev_Registry ''consul'' ['''']] \<and>
   registry_DefaultRegistry ex_world = [''old registry''] \<and>
   registry_DefaultRegistry defaults_result = [''registry'', '''']"
proof -
  have h: "StringFlag_Value DefaultFlags ''registry'' = Some (ctx_String defaults_ctx ''registry'')"
    by (simp add: defaults_strings DefaultFlags_def)
  have v: "registry_DefaultRegistry ex_world = [''old registry'']"
    "registry_DefaultRegistry defaults_result = [''registry'', '''']"
    by (simp_all add: ex_world_def defaults_result_def)
  from registry_default_resolves[OF ex_world_args builtin_tables(2) h]
  have "registry_DefaultRegistry defaults_result = registry_NewRegistry ex_packages [''''] [] \<and>
   filter is_Ev_Registry (new_events ex_world defaults_result) = [Ev_Registry ''consul'' ['''']]"
    by (simp only: defaults_run defaults_strings ex_splits) simp
  then show ?thesis
    using ex_world_args builtin_tables(2) h defaults_run v by simp
qed

text \<open>
  C9. The declared default of the \<^verbatim>\<open>selector\<close> flag is \<^verbatim>\<open>selector\<close>, and the
  only key of the built-in selector table is \<^verbatim>\<open>random\<close>. So on a command with that
  table and a context in which the selector flag reads as its declared default, the
  hook returns nil, calls no selector factory and leaves the default selector as it
  was, whatever the other flags are (their defaults included). The process argument
  list is assumed to hold the program name.
\<close>

theorem selector_default_is_not_registered:
  assumes "os_Args w \<noteq> []"
    and "Selectors (opts c) = DefaultSelectors pk"
    and "StringFlag_Value DefaultFlags ''selector'' = Some (ctx_String ctx ''selector'')"
  shows "ctx_String ctx ''selector'' = ''selector'' \<and>
     dom (DefaultSelectors pk) = {''random''} \<and>
     ctx_String ctx ''selector'' \<notin> dom (Selectors (opts c)) \<and>
     (\<exists>w'. Before pk c ctx w = Inr (None, w') \<and>
        selector_DefaultSelector w' = selector_DefaultSelector w \<and>
        filter is_Ev_Selector (new_events w w') = [])"
proof -
  have k: "ctx_String ctx ''selector'' = ''selector''"
    using assms(3) by (simp add: DefaultFlags_def)
  have n: "Selectors (opts c) (ctx_String ctx ''selector'') = None"
    by (simp add: assms(2) k DefaultSelectors_def)
  have "Before pk c ctx w = Inr (None, result_world pk c ctx w)"
    by (rule Before_result[OF assms(1)])
  moreover have "selector_DefaultSelector (result_world pk c ctx w) = selector_DefaultSelector w"
    by (simp only: result_fields(3)[OF assms(1), of pk c ctx] n option.case)
  moreover have "filter is_Ev_Selector (new_events w (result_world pk c ctx w)) = []"
    by (simp only: result_events_by_kind(3)[OF assms(1), of pk c ctx] n option.case)
  moreover have "ctx_String ctx ''selector'' \<notin> dom (Selectors (opts c))"
    using n by (simp add: domIff)
  ultimately show ?thesis using k builtin_keys(3)[of pk] by blast
qed

theorem selector_default_is_not_registered_witness:
  "os_Args ex_world \<noteq> [] \<and>
   Selectors (opts ex_cmd) = DefaultSelectors ex_packages \<and>
   StringFlag_Value DefaultFlags ''selector'' = Some (ctx_String defaults_ctx ''selector'') \<and>
   Before ex_packages ex_cmd defaults_ctx ex_world = Inr (None, defaults_result) \<and>
   selector_DefaultSelector defaults_result = selector_DefaultSelector ex_world \<and>
   filter is_Ev_Selector (new_events ex_world defaults_result) = [] \<and>
   filter is_Ev_Broker (new_events ex_world defaults_result) = [Ev_Broker ''http'' ['''']] \<and>
   filter is_Ev_Registry (new_events ex_world defaults_result) = [Ev_Registry ''consul'' ['''']] \<and>
   filter is_Ev_Transport (new_events ex_world defaults_result) = [Ev_Transport ''http'' ['''']]"
proof -
  have h: "StringFlag_Value DefaultFlags ''selector'' = Some (ctx_String defaults_ctx ''selector'')"
    by (simp add: defaults_strings DefaultFlags_def)
  have others:
    "filter is_Ev_Broker (new_events ex_world defaults_result) = [Ev_Broker ''http'' ['''']]"
    "filter is_Ev_Registry (new_events ex_world defaults_result) = [Ev_Registry ''consul'' ['''']]"
    "filter is_Ev_Transport (new_events ex_world defaults_result) = [Ev_Transport ''http'' ['''']]"
    by (simp_all add: new_events_def defaults_result_def ex_world_def ex_logging_def)
  from selector_default_is_not_registered[OF ex_world_args builtin_tables(3) h]
  have "selector_DefaultSelector defaults_result = selector_DefaultSelector ex_world \<and>
   filter is_Ev_Selector (new_events ex_world defaults_result) = []"
    by (simp only: defaults_run) simp
  then show ?thesis
    using ex_world_args builtin_tables(3) h defaults_run others by simp
qed

text \<open>
  C10. When the registry kind is not registered and the selector kind is, the hook
  still returns nil and still calls the selector factory, once: the registry
  statement changes nothing, so the factory receives the one option that wraps the
  value the default-registry variable held when the hook was entered, and the default
  selector becomes what the factory returns for it. The process argument list is
  assumed to hold the program name.
\<close>

theorem selector_gets_previous_registry:
  assumes "os_Args w \<noteq> []"
    and "ctx_String ctx ''registry'' \<notin> dom (Registries (opts c))"
    and "Selectors (opts c) (ctx_String ctx ''selector'') = Some s"
  shows "\<exists>w'. Before pk c ctx w = Inr (None, w') \<and>
     registry_DefaultRegistry w' = registry_DefaultRegistry w \<and>
     filter is_Ev_Registry (new_events w w') = [] \<and>
     selector_DefaultSelector w' = s [selector_Registry (registry_DefaultRegistry w)] \<and>
     filter is_Ev_Selector (new_events w w') =
       [Ev_Selector (ctx_String ctx ''selector'')
          [selector_Registry (registry_DefaultRegistry w)]]"
proof -
  have n: "Registries (opts c) (ctx_String ctx ''registry'') = None"
    using assms(2) by (simp add: domIff)
  have r: "registry_DefaultRegistry (result_world pk c ctx w) = registry_DefaultRegistry w"
    by (simp only: result_fields(2)[OF assms(1)] n option.case)
  have "Before pk c ctx w = Inr (None, result_world pk c ctx w)"
    by (rule Before_result[OF assms(1)])
  moreover have "filter is_Ev_Registry (new_events w (result_world pk c ctx w)) = []"
    by (simp only: result_events_by_kind(2)[OF assms(1)] n option.case)
  moreover have "selector_DefaultSelector (result_world pk c ctx w) =
      s [selector_Registry (registry_DefaultRegistry w)]"
    by (simp only: result_fields(3)[OF assms(1), of pk c ctx] assms(3) option.case r)
  moreover have "filter is_Ev_Selector (new_events w (result_world pk c ctx w)) =
       [Ev_Selector (ctx_String ctx ''selector'')
          [selector_Registry (registry_DefaultRegistry w)]]"
    by (simp only: result_events_by_kind(3)[OF assms(1), of pk c ctx] assms(3) option.case r)
  ultimately show ?thesis using r by blast
qed

theorem selector_gets_previous_registry_witness:
  "os_Args ex_world \<noteq> [] \<and>
   ctx_String no_registry_ctx ''registry'' \<notin> dom (Registries (opts ex_cmd)) \<and>
   Selectors (opts ex_cmd) (ctx_String no_registry_ctx ''selector'') =
     Some (selector_NewSelector ex_packages) \<and>
   Before ex_packages ex_cmd no_registry_ctx ex_world =
     Inr (None, no_registry_result) \<and>
   registry_DefaultRegistry no_registry_result = registry_DefaultRegistry ex_world \<and>
   filter is_Ev_Registry (new_events ex_world no_registry_result) = [] \<and>
   selector_DefaultSelector no_registry_result =
     selector_NewSelector ex_packages [selector_Registry (registry_DefaultRegistry ex_world)] \<and>
   filter is_Ev_Selector (new_events ex_world no_registry_result) =
     [Ev_Selector ''random'' [selector_Registry (registry_DefaultRegistry ex_world)]] \<and>
   registry_DefaultRegistry ex_world = [''old registry''] \<and>
   selector_DefaultSelector no_registry_result = [selector_Registry [''old registry'']]"
proof -
  have h1: "ctx_String no_registry_ctx ''registry'' \<notin> dom (Registries (opts ex_cmd))"
    by (simp add: no_registry_strings builtin_tables builtin_keys)
  have h2: "Selectors (opts ex_cmd) (ctx_String no_registry_ctx ''selector'') =
     Some (selector_NewSelector ex_packages)"
    by (simp add: no_registry_strings builtin_tables builtin_entries)
  have v: "registry_DefaultRegistry ex_world = [''old registry'']"
    "selector_DefaultSelector no_registry_result = [selector_Registry [''old registry'']]"
    by (simp_all add: ex_world_def no_registry_result_def)
  from selector_gets_previous_registry[OF ex_world_args h1 h2, of ex_packages]
  have "registry_DefaultRegistry no_registry_result = registry_DefaultRegistry ex_world \<and>
   filter is_Ev_Registry (new_events ex_world no_registry_result) = [] \<and>
   selector_DefaultSelector no_registry_result =
     selector_NewSelector ex_packages [selector_Registry (registry_DefaultRegistry ex_world)] \<and>
   filter is_Ev_Selector (new_events ex_world no_registry_result) =
     [Ev_Selector ''random'' [selector_Registry (registry_DefaultRegistry ex_world)]]"
    by (simp only: no_registry_run no_registry_strings) simp
  then show ?thesis
    using ex_world_args h1 h2 no_registry_run v by simp
qed

end
